theory Spec2Isabelle
  imports Complex_Main "HOL-Library.Word" "HOL-Library.Multiset"
begin

section \<open>Irrigation analytics: the computation service\<close>

text \<open>
  A shallow embedding of \<^verbatim>\<open>internal/service/analytics_service.go\<close>: the
  efficiency and percentage-change formulas, the folds over aggregated buckets, the two
  historical comparisons, the per-sector breakdown and the request entry point
  \<^verbatim>\<open>GetIrrigationAnalytics\<close>.

  Conventions of the model.
  \<^item> \<^verbatim>\<open>float64\<close> is the type of real numbers: arithmetic is exact, so NaN,
    infinities and binary rounding error are outside the model. Every test on a float in the
    source (\<^verbatim>\<open>== 0\<close>, \<^verbatim>\<open>> 0\<close>) is the same test on the real.
  \<^item> Go's \<^verbatim>\<open>int\<close> is a 64-bit word read as a signed number: \<open>+\<close> wraps,
    \<^verbatim>\<open>x > 0\<close> is \<open>0 <s x\<close> and \<^verbatim>\<open>float64(x)\<close> is
    \<open>real_of_int (sint x)\<close>.
  \<^item> \<^verbatim>\<open>uint\<close> identifiers are natural numbers; the source does no arithmetic on
    them.
  \<^item> \<^verbatim>\<open>time.Time\<close> is a type parameter \<open>'t\<close>, and the standard library's
    \<^verbatim>\<open>AddDate\<close> is a parameter of the functions that call it.
  \<^item> A pointer that may be nil (\<^verbatim>\<open>*uint\<close>, \<^verbatim>\<open>*PeriodMetrics\<close>) is an
    \<open>option\<close>; so is the slice of the response that the source leaves nil in one
    case and makes empty in another.
  \<^item> The repository is the interface the service is written against: a record of
    functions that take the state of the data source and return the answer with the next
    state, so that two fetches of one request may see different data or fail
    independently.
  \<^item> Go leaves the order of \<^verbatim>\<open>range\<close> over a map unspecified; the order the
    runtime picks is the parameter \<open>rangeOrder\<close>.
\<close>

type_synonym float64 = real
type_synonym go_int = "64 word"
type_synonym uint = nat

subsection \<open>Rounding\<close>

text \<open>
  \<^verbatim>\<open>math.Round\<close> of the standard library: the nearest integer, halves rounded away
  from zero.
\<close>

definition math_Round :: "float64 \<Rightarrow> float64" where
  "math_Round x = (if x < 0 then - of_int \<lfloor>- x + 1 / 2\<rfloor> else of_int \<lfloor>x + 1 / 2\<rfloor>)"

text \<open>
  The specification's \<open>round(x, n dp)\<close>: the multiple of \<open>10\<^sup>-\<^sup>n\<close> nearest to
  \<open>x\<close>, a tie going away from zero. It is written from the specification's words, to be
  compared with what the source computes.
\<close>

definition spec_round :: "nat \<Rightarrow> real \<Rightarrow> real" where
  "spec_round n x = sgn x * of_int \<lfloor>\<bar>x\<bar> * 10 ^ n + 1 / 2\<rfloor> / 10 ^ n"

subsection \<open>The two formulas\<close>

text \<open>\<^verbatim>\<open>calculateEfficiency\<close>, lines 164-172.\<close>

definition calculateEfficiency :: "float64 \<Rightarrow> float64 \<Rightarrow> float64" where
  "calculateEfficiency realAmount nominalAmount =
     (if nominalAmount = 0 then 0
      else (let efficiency = realAmount / nominalAmount
            in math_Round (efficiency * 10000) / 10000))"

text \<open>\<^verbatim>\<open>calculateChangePercent\<close>, lines 405-417.\<close>

definition calculateChangePercent :: "float64 \<Rightarrow> float64 \<Rightarrow> float64" where
  "calculateChangePercent current previous =
     (if previous = 0 then (if current = 0 then 0 else 100)
      else (let change = ((current - previous) / previous) * 100
            in math_Round (change * 100) / 100))"



section \<open>Data model\<close>

text \<open>
  Field names are the source's; where two structs share a field name the later one carries
  a prefix (\<open>pt_\<close> data point, \<open>pm_\<close> period metrics, \<open>sb_\<close> sector breakdown,
  \<open>yc_\<close> year comparison, \<open>pc_\<close>, \<open>yoy_\<close> the two comparison blocks, \<open>r_\<close> response).
\<close>

text \<open>\<^verbatim>\<open>model.IrrigationData\<close>, with the fields the repository fills in for an
  aggregated bucket (lines 1126-1134); the service reads no other field.\<close>

record 't IrrigationData =
  StartTime :: 't
  WaterVolume :: float64
  Duration :: go_int
  FarmID :: uint
  IrrigationSectorID :: uint
  NominalAmount :: float64
  RealAmount :: float64

record 't AggregatedDataWithCount =
  Data :: "'t IrrigationData"
  EventCount :: go_int

record 't PeriodInfo =
  StartDate :: 't
  EndDate :: 't

record 't AggregatedDataPoint =
  pt_Period :: 't
  pt_WaterVolume :: float64
  pt_Duration :: go_int
  pt_Efficiency :: float64
  pt_EventCount :: go_int
  pt_RealAmount :: float64
  pt_NominalAmount :: float64

record AnalyticsSummary =
  TotalWaterVolume :: float64
  TotalDuration :: go_int
  AverageEfficiency :: float64
  TotalEvents :: go_int
  TotalRealAmount :: float64
  TotalNominalAmount :: float64

record 't PeriodMetrics =
  pm_Period :: "'t PeriodInfo"
  pm_TotalWaterVolume :: float64
  pm_TotalEvents :: go_int
  pm_AverageEfficiency :: float64
  VolumeChangePercent :: float64
  EventsChangePercent :: float64
  EfficiencyChangePercent :: float64

record 't PeriodComparison =
  pc_OneYearAgo :: "'t PeriodMetrics option"
  pc_TwoYearsAgo :: "'t PeriodMetrics option"

record SectorBreakdown =
  sb_SectorID :: uint
  sb_TotalWaterVolume :: float64
  sb_TotalEvents :: go_int
  sb_AverageEfficiency :: float64
  sb_TotalRealAmount :: float64
  sb_TotalNominalAmount :: float64

record 't YearComparison =
  yc_Period :: "'t PeriodInfo"
  yc_TotalWaterVolume :: float64
  yc_TotalDuration :: go_int
  yc_AverageEfficiency :: float64
  yc_TotalEvents :: go_int
  ChangePercent :: float64

record 't YearOverYearComparison =
  yoy_OneYearAgo :: "'t YearComparison option"
  yoy_TwoYearsAgo :: "'t YearComparison option"

text \<open>\<^verbatim>\<open>SectorBreakdown\<close> of the response is a slice that is nil when the request
  names a sector and non-nil (possibly empty) otherwise: an optional list.\<close>

record 't AnalyticsResponse =
  r_FarmID :: uint
  r_SectorID :: "uint option"
  r_Period :: "'t PeriodInfo"
  r_Aggregation :: string
  r_Data :: "'t AggregatedDataPoint list"
  r_Summary :: AnalyticsSummary
  r_PeriodComparison :: "'t PeriodComparison"
  r_SectorBreakdown :: "SectorBreakdown list option"
  r_YearOverYear :: "'t YearOverYearComparison"

text \<open>A Go \<^verbatim>\<open>error\<close> value, with its message.\<close>

datatype error = Error string

text \<open>
  \<^verbatim>\<open>repository.IrrigationRepository\<close>, the two methods the analytics use. A method
  takes the state \<open>'db\<close> of the data source and returns its answer, the rows or an error,
  with the state after the call.
\<close>

type_synonym ('t, 'db) fetch = "'db \<Rightarrow> (error + 't AggregatedDataWithCount list) \<times> 'db"

record ('t, 'db) IrrigationRepository =
  GetAggregatedData :: "uint \<Rightarrow> uint option \<Rightarrow> 't \<Rightarrow> 't \<Rightarrow> string \<Rightarrow> ('t, 'db) fetch"
  GetYearOverYearData :: "uint \<Rightarrow> uint option \<Rightarrow> 't \<Rightarrow> 't \<Rightarrow> string \<Rightarrow> go_int \<Rightarrow> ('t, 'db) fetch"

record ('t, 'db) analyticsService =
  repo :: "('t, 'db) IrrigationRepository"

section \<open>The service\<close>

subsection \<open>Per-bucket data points\<close>

text \<open>\<^verbatim>\<open>processDataPoints\<close>, lines 175-204: the loop appends one point per bucket.\<close>

fun processDataPoints_loop ::
  "'t AggregatedDataWithCount list \<Rightarrow> 't AggregatedDataPoint list \<Rightarrow> 't AggregatedDataPoint list"
where
  "processDataPoints_loop [] points = points"
| "processDataPoints_loop (item # rest) points =
     (let d = Data item;
          efficiency = calculateEfficiency (RealAmount d) (NominalAmount d);
          efficiency =
            (if RealAmount d = 0 \<and> NominalAmount d = 0 \<and> WaterVolume d > 0
             then (if 0 <s Duration d
                   then (let nominalVolume = real_of_int (sint (Duration d)) * 1
                         in calculateEfficiency (WaterVolume d) nominalVolume)
                   else efficiency)
             else efficiency)
      in processDataPoints_loop rest
           (points @ [\<lparr>pt_Period = StartTime d,
                       pt_WaterVolume = WaterVolume d,
                       pt_Duration = Duration d,
                       pt_Efficiency = efficiency,
                       pt_EventCount = EventCount item,
                       pt_RealAmount = RealAmount d,
                       pt_NominalAmount = NominalAmount d\<rparr>]))"

definition processDataPoints ::
  "'t AggregatedDataWithCount list \<Rightarrow> string \<Rightarrow> 't AggregatedDataPoint list"
where
  "processDataPoints data aggregation = processDataPoints_loop data []"

subsection \<open>Summary\<close>

text \<open>The local variables of \<^verbatim>\<open>calculateSummary\<close>, lines 208-214.\<close>

record summary_locals =
  totalWaterVolume :: float64
  totalDuration :: go_int
  totalEfficiency :: float64
  efficiencyCount :: go_int
  totalRealAmount :: float64
  totalNominalAmount :: float64
  totalEvents :: go_int

text \<open>The loop of \<^verbatim>\<open>calculateSummary\<close>, lines 216-237.\<close>

fun calculateSummary_loop ::
  "'t AggregatedDataWithCount list \<Rightarrow> summary_locals \<Rightarrow> summary_locals"
where
  "calculateSummary_loop [] v = v"
| "calculateSummary_loop (item # rest) v =
     (let d = Data item;
          v = v\<lparr>totalWaterVolume := totalWaterVolume v + WaterVolume d,
                totalDuration := totalDuration v + Duration d,
                totalRealAmount := totalRealAmount v + RealAmount d,
                totalNominalAmount := totalNominalAmount v + NominalAmount d,
                totalEvents := totalEvents v + EventCount item\<rparr>;
          efficiency = calculateEfficiency (RealAmount d) (NominalAmount d);
          efficiency =
            (if efficiency = 0 \<and> WaterVolume d > 0 \<and> 0 <s Duration d
             then (let nominalVolume = real_of_int (sint (Duration d)) * 1
                   in calculateEfficiency (WaterVolume d) nominalVolume)
             else efficiency);
          v = (if efficiency > 0
               then v\<lparr>totalEfficiency := totalEfficiency v + efficiency,
                       efficiencyCount := efficiencyCount v + 1\<rparr>
               else v)
      in calculateSummary_loop rest v)"

text \<open>\<^verbatim>\<open>calculateSummary\<close>, lines 207-252.\<close>

definition calculateSummary :: "'t AggregatedDataWithCount list \<Rightarrow> AnalyticsSummary" where
  "calculateSummary data =
     (let v = calculateSummary_loop data
                \<lparr>totalWaterVolume = 0, totalDuration = 0, totalEfficiency = 0,
                 efficiencyCount = 0, totalRealAmount = 0, totalNominalAmount = 0,
                 totalEvents = 0\<rparr>;
          avgEfficiency = 0;
          avgEfficiency =
            (if 0 <s efficiencyCount v
             then totalEfficiency v / real_of_int (sint (efficiencyCount v))
             else avgEfficiency)
      in \<lparr>TotalWaterVolume = math_Round (totalWaterVolume v * 100) / 100,
          TotalDuration = totalDuration v,
          AverageEfficiency = math_Round (avgEfficiency * 10000) / 10000,
          TotalEvents = totalEvents v,
          TotalRealAmount = math_Round (totalRealAmount v * 100) / 100,
          TotalNominalAmount = math_Round (totalNominalAmount v * 100) / 100\<rparr>)"

subsection \<open>Comparison with one and two years before\<close>

text \<open>
  \<^verbatim>\<open>calculatePeriodComparison\<close>, lines 255-297. \<open>AddDate t y m d\<close> stands for
  \<^verbatim>\<open>t.AddDate(y, m, d)\<close>. The second fetch runs on the state the first one left.
\<close>

definition calculatePeriodComparison ::
  "('t \<Rightarrow> int \<Rightarrow> int \<Rightarrow> int \<Rightarrow> 't) \<Rightarrow> ('t, 'db) analyticsService \<Rightarrow> uint \<Rightarrow> uint option \<Rightarrow>
   't \<Rightarrow> 't \<Rightarrow> string \<Rightarrow> AnalyticsSummary \<Rightarrow> 'db \<Rightarrow> 't PeriodComparison \<times> 'db"
where
  "calculatePeriodComparison AddDate s farmID sectorID startDate endDate aggregation
     currentSummary db =
     (let comparison = \<lparr>pc_OneYearAgo = None, pc_TwoYearsAgo = None\<rparr>;
          (res, db) = GetYearOverYearData (repo s) farmID sectorID startDate endDate aggregation 1 db;
          comparison =
            (case res of
               Inl err \<Rightarrow> comparison
             | Inr oneYearData \<Rightarrow>
                 if length oneYearData > 0
                 then (let oneYearSummary = calculateSummary oneYearData
                       in comparison\<lparr>pc_OneYearAgo := Some
                            \<lparr>pm_Period = \<lparr>StartDate = AddDate startDate (- 1) 0 0,
                                           EndDate = AddDate endDate (- 1) 0 0\<rparr>,
                             pm_TotalWaterVolume = TotalWaterVolume oneYearSummary,
                             pm_TotalEvents = TotalEvents oneYearSummary,
                             pm_AverageEfficiency = AverageEfficiency oneYearSummary,
                             VolumeChangePercent =
                               calculateChangePercent (TotalWaterVolume currentSummary)
                                 (TotalWaterVolume oneYearSummary),
                             EventsChangePercent =
                               calculateChangePercent
                                 (real_of_int (sint (TotalEvents currentSummary)))
                                 (real_of_int (sint (TotalEvents oneYearSummary))),
                             EfficiencyChangePercent =
                               calculateChangePercent (AverageEfficiency currentSummary)
                                 (AverageEfficiency oneYearSummary)\<rparr>\<rparr>)
                 else comparison);
          (res, db) = GetYearOverYearData (repo s) farmID sectorID startDate endDate aggregation 2 db;
          comparison =
            (case res of
               Inl err \<Rightarrow> comparison
             | Inr twoYearsData \<Rightarrow>
                 if length twoYearsData > 0
                 then (let twoYearsSummary = calculateSummary twoYearsData
                       in comparison\<lparr>pc_TwoYearsAgo := Some
                            \<lparr>pm_Period = \<lparr>StartDate = AddDate startDate (- 2) 0 0,
                                           EndDate = AddDate endDate (- 2) 0 0\<rparr>,
                             pm_TotalWaterVolume = TotalWaterVolume twoYearsSummary,
                             pm_TotalEvents = TotalEvents twoYearsSummary,
                             pm_AverageEfficiency = AverageEfficiency twoYearsSummary,
                             VolumeChangePercent =
                               calculateChangePercent (TotalWaterVolume currentSummary)
                                 (TotalWaterVolume twoYearsSummary),
                             EventsChangePercent =
                               calculateChangePercent
                                 (real_of_int (sint (TotalEvents currentSummary)))
                                 (real_of_int (sint (TotalEvents twoYearsSummary))),
                             EfficiencyChangePercent =
                               calculateChangePercent (AverageEfficiency currentSummary)
                                 (AverageEfficiency twoYearsSummary)\<rparr>\<rparr>)
                 else comparison)
      in (comparison, db))"

text \<open>\<^verbatim>\<open>calculateYearOverYear\<close>, lines 359-401: the legacy shape.\<close>

definition calculateYearOverYear ::
  "('t \<Rightarrow> int \<Rightarrow> int \<Rightarrow> int \<Rightarrow> 't) \<Rightarrow> ('t, 'db) analyticsService \<Rightarrow> uint \<Rightarrow> uint option \<Rightarrow>
   't \<Rightarrow> 't \<Rightarrow> string \<Rightarrow> AnalyticsSummary \<Rightarrow> 'db \<Rightarrow> 't YearOverYearComparison \<times> 'db"
where
  "calculateYearOverYear AddDate s farmID sectorID startDate endDate aggregation
     currentSummary db =
     (let yoy = \<lparr>yoy_OneYearAgo = None, yoy_TwoYearsAgo = None\<rparr>;
          (res, db) = GetYearOverYearData (repo s) farmID sectorID startDate endDate aggregation 1 db;
          yoy =
            (case res of
               Inl err \<Rightarrow> yoy
             | Inr oneYearData \<Rightarrow>
                 if length oneYearData > 0
                 then (let oneYearSummary = calculateSummary oneYearData;
                           changePercent =
                             calculateChangePercent (TotalWaterVolume currentSummary)
                               (TotalWaterVolume oneYearSummary)
                       in yoy\<lparr>yoy_OneYearAgo := Some
                            \<lparr>yc_Period = \<lparr>StartDate = AddDate startDate (- 1) 0 0,
                                           EndDate = AddDate endDate (- 1) 0 0\<rparr>,
                             yc_TotalWaterVolume = TotalWaterVolume oneYearSummary,
                             yc_TotalDuration = TotalDuration oneYearSummary,
                             yc_AverageEfficiency = AverageEfficiency oneYearSummary,
                             yc_TotalEvents = TotalEvents oneYearSummary,
                             ChangePercent = changePercent\<rparr>\<rparr>)
                 else yoy);
          (res, db) = GetYearOverYearData (repo s) farmID sectorID startDate endDate aggregation 2 db;
          yoy =
            (case res of
               Inl err \<Rightarrow> yoy
             | Inr twoYearsData \<Rightarrow>
                 if length twoYearsData > 0
                 then (let twoYearsSummary = calculateSummary twoYearsData;
                           changePercent =
                             calculateChangePercent (TotalWaterVolume currentSummary)
                               (TotalWaterVolume twoYearsSummary)
                       in yoy\<lparr>yoy_TwoYearsAgo := Some
                            \<lparr>yc_Period = \<lparr>StartDate = AddDate startDate (- 2) 0 0,
                                           EndDate = AddDate endDate (- 2) 0 0\<rparr>,
                             yc_TotalWaterVolume = TotalWaterVolume twoYearsSummary,
                             yc_TotalDuration = TotalDuration twoYearsSummary,
                             yc_AverageEfficiency = AverageEfficiency twoYearsSummary,
                             yc_TotalEvents = TotalEvents twoYearsSummary,
                             ChangePercent = changePercent\<rparr>\<rparr>)
                 else yoy)
      in (yoy, db))"

subsection \<open>Sector breakdown\<close>

text \<open>
  The first loop of \<^verbatim>\<open>calculateSectorBreakdown\<close>, lines 310-336: the map from sector
  to its running totals. The map holds pointers, each to a struct of its own, so updating
  the struct behind a key is updating the map at that key.
\<close>

fun sectorMap_loop ::
  "'t AggregatedDataWithCount list \<Rightarrow> (uint \<rightharpoonup> SectorBreakdown) \<Rightarrow> (uint \<rightharpoonup> SectorBreakdown)"
where
  "sectorMap_loop [] sectorMap = sectorMap"
| "sectorMap_loop (item # rest) sectorMap =
     (let d = Data item;
          sectorID = IrrigationSectorID d
      in sectorMap_loop rest
           (case sectorMap sectorID of
              Some breakdown \<Rightarrow>
                sectorMap(sectorID \<mapsto> breakdown
                  \<lparr>sb_TotalWaterVolume := sb_TotalWaterVolume breakdown + WaterVolume d,
                   sb_TotalEvents := sb_TotalEvents breakdown + EventCount item,
                   sb_TotalRealAmount := sb_TotalRealAmount breakdown + RealAmount d,
                   sb_TotalNominalAmount := sb_TotalNominalAmount breakdown + NominalAmount d\<rparr>)
            | None \<Rightarrow>
                (let efficiency = calculateEfficiency (RealAmount d) (NominalAmount d);
                     efficiency =
                       (if efficiency = 0 \<and> WaterVolume d > 0 \<and> 0 <s Duration d
                        then (let nominalVolume = real_of_int (sint (Duration d)) * 1
                              in calculateEfficiency (WaterVolume d) nominalVolume)
                        else efficiency)
                 in sectorMap(sectorID \<mapsto>
                      \<lparr>sb_SectorID = sectorID,
                       sb_TotalWaterVolume = WaterVolume d,
                       sb_TotalEvents = EventCount item,
                       sb_AverageEfficiency = efficiency,
                       sb_TotalRealAmount = RealAmount d,
                       sb_TotalNominalAmount = NominalAmount d\<rparr>))))"

text \<open>
  The second loop, lines 340-353, over the keys in the order the runtime visits them. A key
  with no entry is skipped: a range over a map meets none.
\<close>

fun breakdowns_loop ::
  "uint list \<Rightarrow> (uint \<rightharpoonup> SectorBreakdown) \<Rightarrow> SectorBreakdown list \<Rightarrow> SectorBreakdown list"
where
  "breakdowns_loop [] sectorMap breakdowns = breakdowns"
| "breakdowns_loop (k # ks) sectorMap breakdowns =
     (case sectorMap k of
        None \<Rightarrow> breakdowns_loop ks sectorMap breakdowns
      | Some breakdown \<Rightarrow>
          (let breakdown =
                 (if sb_TotalNominalAmount breakdown > 0
                  then breakdown\<lparr>sb_AverageEfficiency :=
                         calculateEfficiency (sb_TotalRealAmount breakdown)
                           (sb_TotalNominalAmount breakdown)\<rparr>
                  else breakdown);
               breakdown = breakdown\<lparr>sb_TotalWaterVolume :=
                  math_Round (sb_TotalWaterVolume breakdown * 100) / 100\<rparr>;
               breakdown = breakdown\<lparr>sb_TotalRealAmount :=
                  math_Round (sb_TotalRealAmount breakdown * 100) / 100\<rparr>;
               breakdown = breakdown\<lparr>sb_TotalNominalAmount :=
                  math_Round (sb_TotalNominalAmount breakdown * 100) / 100\<rparr>;
               breakdown = breakdown\<lparr>sb_AverageEfficiency :=
                  math_Round (sb_AverageEfficiency breakdown * 10000) / 10000\<rparr>
           in breakdowns_loop ks sectorMap (breakdowns @ [breakdown])))"

text \<open>
  What Go promises of \<^verbatim>\<open>range\<close> over a map: every key once, in some order.
\<close>

definition range_visits_each_key_once :: "uint list \<Rightarrow> (uint \<rightharpoonup> 'v) \<Rightarrow> bool" where
  "range_visits_each_key_once ks m \<longleftrightarrow> distinct ks \<and> set ks = dom m"

text \<open>\<^verbatim>\<open>calculateSectorBreakdown\<close>, lines 300-356.\<close>

definition calculateSectorBreakdown ::
  "((uint \<rightharpoonup> SectorBreakdown) \<Rightarrow> uint list) \<Rightarrow> ('t, 'db) analyticsService \<Rightarrow> uint \<Rightarrow>
   't \<Rightarrow> 't \<Rightarrow> string \<Rightarrow> 'db \<Rightarrow> SectorBreakdown list \<times> 'db"
where
  "calculateSectorBreakdown rangeOrder s farmID startDate endDate aggregation db =
     (let (res, db) = GetAggregatedData (repo s) farmID None startDate endDate aggregation db
      in case res of
           Inl err \<Rightarrow> ([], db)
         | Inr data \<Rightarrow>
             (let sectorMap = sectorMap_loop data Map.empty;
                  breakdowns = breakdowns_loop (rangeOrder sectorMap) sectorMap []
              in (breakdowns, db)))"

subsection \<open>The request\<close>

text \<open>
  \<^verbatim>\<open>GetIrrigationAnalytics\<close>, lines 115-160. The result is the error of the
  current-window fetch (with a nil response) or the response, paired with the state of the
  data source after the request's fetches.
\<close>

definition GetIrrigationAnalytics ::
  "('t \<Rightarrow> int \<Rightarrow> int \<Rightarrow> int \<Rightarrow> 't) \<Rightarrow> ((uint \<rightharpoonup> SectorBreakdown) \<Rightarrow> uint list) \<Rightarrow>
   ('t, 'db) analyticsService \<Rightarrow> uint \<Rightarrow> uint option \<Rightarrow> 't \<Rightarrow> 't \<Rightarrow> string \<Rightarrow> 'db \<Rightarrow>
   (error + 't AnalyticsResponse) \<times> 'db"
where
  "GetIrrigationAnalytics AddDate rangeOrder s farmID sectorID startDate endDate aggregation db =
     (let aggregation = (if aggregation = '''' then ''daily'' else aggregation);
          aggregation =
            (if aggregation \<noteq> ''daily'' \<and> aggregation \<noteq> ''weekly'' \<and> aggregation \<noteq> ''monthly''
             then ''daily'' else aggregation);
          (res, db) = GetAggregatedData (repo s) farmID sectorID startDate endDate aggregation db
      in case res of
           Inl err \<Rightarrow> (Inl err, db)
         | Inr currentData \<Rightarrow>
             (let dataPoints = processDataPoints currentData aggregation;
                  summary = calculateSummary currentData;
                  (periodComparison, db) =
                    calculatePeriodComparison AddDate s farmID sectorID startDate endDate
                      aggregation summary db;
                  (sectorBreakdown, db) =
                    (case sectorID of
                       None \<Rightarrow>
                         (let (breakdowns, db) =
                                calculateSectorBreakdown rangeOrder s farmID startDate endDate
                                  aggregation db
                          in (Some breakdowns, db))
                     | Some _ \<Rightarrow> (None, db));
                  (yoy, db) =
                    calculateYearOverYear AddDate s farmID sectorID startDate endDate
                      aggregation summary db
              in (Inr \<lparr>r_FarmID = farmID,
                        r_SectorID = sectorID,
                        r_Period = \<lparr>StartDate = startDate, EndDate = endDate\<rparr>,
                        r_Aggregation = aggregation,
                        r_Data = dataPoints,
                        r_Summary = summary,
                        r_PeriodComparison = periodComparison,
                        r_SectorBreakdown = sectorBreakdown,
                        r_YearOverYear = yoy\<rparr>, db)))"

subsection \<open>Names for what the loops compute per bucket\<close>

text \<open>The efficiency the loop of \<^verbatim>\<open>calculateSummary\<close> gives one bucket before it
  decides whether to count it (lines 225-231).\<close>

definition summary_bucket_efficiency :: "'t IrrigationData \<Rightarrow> float64" where
  "summary_bucket_efficiency d =
     (let efficiency = calculateEfficiency (RealAmount d) (NominalAmount d)
      in if efficiency = 0 \<and> WaterVolume d > 0 \<and> 0 <s Duration d
         then calculateEfficiency (WaterVolume d) (real_of_int (sint (Duration d)) * 1)
         else efficiency)"

text \<open>The efficiency \<^verbatim>\<open>processDataPoints\<close> gives one bucket (lines 181-190).\<close>

definition point_bucket_efficiency :: "'t IrrigationData \<Rightarrow> float64" where
  "point_bucket_efficiency d =
     (if RealAmount d = 0 \<and> NominalAmount d = 0 \<and> WaterVolume d > 0 \<and> 0 <s Duration d
      then calculateEfficiency (WaterVolume d) (real_of_int (sint (Duration d)) * 1)
      else calculateEfficiency (RealAmount d) (NominalAmount d))"


subsection \<open>Names for parts of the request\<close>

text \<open>The aggregation level after lines 117-122: empty or unknown becomes daily.\<close>

definition normalizeAggregation :: "string \<Rightarrow> string" where
  "normalizeAggregation aggregation =
     (let aggregation = (if aggregation = '''' then ''daily'' else aggregation)
      in if aggregation \<noteq> ''daily'' \<and> aggregation \<noteq> ''weekly'' \<and> aggregation \<noteq> ''monthly''
         then ''daily'' else aggregation)"

text \<open>The entry \<^verbatim>\<open>calculatePeriodComparison\<close> builds for the window \<open>years\<close> back
  (lines 263-274 and 282-293).\<close>

definition periodMetricsFor ::
  "('t \<Rightarrow> int \<Rightarrow> int \<Rightarrow> int \<Rightarrow> 't) \<Rightarrow> int \<Rightarrow> 't \<Rightarrow> 't \<Rightarrow> AnalyticsSummary \<Rightarrow> AnalyticsSummary \<Rightarrow>
   't PeriodMetrics"
where
  "periodMetricsFor AddDate years startDate endDate currentSummary yearSummary =
     \<lparr>pm_Period = \<lparr>StartDate = AddDate startDate (- years) 0 0,
                    EndDate = AddDate endDate (- years) 0 0\<rparr>,
      pm_TotalWaterVolume = TotalWaterVolume yearSummary,
      pm_TotalEvents = TotalEvents yearSummary,
      pm_AverageEfficiency = AverageEfficiency yearSummary,
      VolumeChangePercent =
        calculateChangePercent (TotalWaterVolume currentSummary) (TotalWaterVolume yearSummary),
      EventsChangePercent =
        calculateChangePercent (real_of_int (sint (TotalEvents currentSummary)))
          (real_of_int (sint (TotalEvents yearSummary))),
      EfficiencyChangePercent =
        calculateChangePercent (AverageEfficiency currentSummary)
          (AverageEfficiency yearSummary)\<rparr>"

text \<open>The entry \<^verbatim>\<open>calculateYearOverYear\<close> builds for the window \<open>years\<close> back
  (lines 368-378 and 387-397).\<close>

definition yearComparisonFor ::
  "('t \<Rightarrow> int \<Rightarrow> int \<Rightarrow> int \<Rightarrow> 't) \<Rightarrow> int \<Rightarrow> 't \<Rightarrow> 't \<Rightarrow> AnalyticsSummary \<Rightarrow> AnalyticsSummary \<Rightarrow>
   't YearComparison"
where
  "yearComparisonFor AddDate years startDate endDate currentSummary yearSummary =
     \<lparr>yc_Period = \<lparr>StartDate = AddDate startDate (- years) 0 0,
                    EndDate = AddDate endDate (- years) 0 0\<rparr>,
      yc_TotalWaterVolume = TotalWaterVolume yearSummary,
      yc_TotalDuration = TotalDuration yearSummary,
      yc_AverageEfficiency = AverageEfficiency yearSummary,
      yc_TotalEvents = TotalEvents yearSummary,
      ChangePercent =
        calculateChangePercent (TotalWaterVolume currentSummary) (TotalWaterVolume yearSummary)\<rparr>"

text \<open>What both comparison functions make of the answer to a historical fetch: an entry
  when the fetch succeeded with at least one bucket, none otherwise.\<close>

definition historical_entry ::
  "(AnalyticsSummary \<Rightarrow> 'a) \<Rightarrow> error + 't AggregatedDataWithCount list \<Rightarrow> 'a option"
where
  "historical_entry build res =
     (case res of
        Inl err \<Rightarrow> None
      | Inr yearData \<Rightarrow> if length yearData > 0 then Some (build (calculateSummary yearData)) else None)"

text \<open>The body of the second loop of \<^verbatim>\<open>calculateSectorBreakdown\<close>, lines 342-350.\<close>

definition roundBreakdown :: "SectorBreakdown \<Rightarrow> SectorBreakdown" where
  "roundBreakdown breakdown =
     (let breakdown =
            (if sb_TotalNominalAmount breakdown > 0
             then breakdown\<lparr>sb_AverageEfficiency :=
                    calculateEfficiency (sb_TotalRealAmount breakdown)
                      (sb_TotalNominalAmount breakdown)\<rparr>
             else breakdown);
          breakdown = breakdown\<lparr>sb_TotalWaterVolume :=
             math_Round (sb_TotalWaterVolume breakdown * 100) / 100\<rparr>;
          breakdown = breakdown\<lparr>sb_TotalRealAmount :=
             math_Round (sb_TotalRealAmount breakdown * 100) / 100\<rparr>;
          breakdown = breakdown\<lparr>sb_TotalNominalAmount :=
             math_Round (sb_TotalNominalAmount breakdown * 100) / 100\<rparr>
      in breakdown\<lparr>sb_AverageEfficiency :=
           math_Round (sb_AverageEfficiency breakdown * 10000) / 10000\<rparr>)"

text \<open>The buckets of one sector, and the sum of a field over them.\<close>

definition sector_buckets ::
  "'t AggregatedDataWithCount list \<Rightarrow> uint \<Rightarrow> 't AggregatedDataWithCount list"
where
  "sector_buckets data sectorID =
     filter (\<lambda>item. IrrigationSectorID (Data item) = sectorID) data"

definition sector_total ::
  "('t IrrigationData \<Rightarrow> float64) \<Rightarrow> 't AggregatedDataWithCount list \<Rightarrow> uint \<Rightarrow> float64"
where
  "sector_total field data sectorID =
     sum_list (map (\<lambda>item. field (Data item)) (sector_buckets data sectorID))"

text \<open>
  The states of the data source at the fetches that follow the current-window fetch of one
  request, in the order \<^verbatim>\<open>GetIrrigationAnalytics\<close> makes them: the two historical
  fetches of the period comparison, the unscoped fetch of the sector breakdown (made only
  when the request names no sector), and the two historical fetches of the legacy view.
  \<open>db0\<close> is the state the current-window fetch left.
\<close>

record 'db request_states =
  at_comparison_1 :: 'db
  at_comparison_2 :: 'db
  at_breakdown :: 'db
  at_legacy_1 :: 'db
  at_legacy_2 :: 'db

definition states_of_request ::
  "('t, 'db) analyticsService \<Rightarrow> uint \<Rightarrow> uint option \<Rightarrow> 't \<Rightarrow> 't \<Rightarrow> string \<Rightarrow> 'db \<Rightarrow>
   'db request_states"
where
  "states_of_request s farmID sectorID startDate endDate aggregation db0 =
     (let db1 = snd (GetYearOverYearData (repo s) farmID sectorID startDate endDate aggregation 1 db0);
          db2 = snd (GetYearOverYearData (repo s) farmID sectorID startDate endDate aggregation 2 db1);
          db3 = (case sectorID of
                   None \<Rightarrow> snd (GetAggregatedData (repo s) farmID None startDate endDate aggregation db2)
                 | Some _ \<Rightarrow> db2);
          db4 = snd (GetYearOverYearData (repo s) farmID sectorID startDate endDate aggregation 1 db3)
      in \<lparr>at_comparison_1 = db0, at_comparison_2 = db1, at_breakdown = db2,
          at_legacy_1 = db3, at_legacy_2 = db4\<rparr>)"

section \<open>Notions the claims speak of\<close>

text \<open>
  An unchanged data source: the answer to a query does not depend on when it is asked, that
  is, on the state of the source.
\<close>

definition unchanged_source :: "('t, 'db) IrrigationRepository \<Rightarrow> bool" where
  "unchanged_source r \<longleftrightarrow>
     (\<forall>f sec sd ed ag d d'.
        fst (GetAggregatedData r f sec sd ed ag d) = fst (GetAggregatedData r f sec sd ed ag d'))
   \<and> (\<forall>f sec sd ed ag n d d'.
        fst (GetYearOverYearData r f sec sd ed ag n d)
          = fst (GetYearOverYearData r f sec sd ed ag n d'))"

text \<open>A range order the runtime may pick: on every finite map it visits each key once.\<close>

definition valid_range_order :: "((uint \<rightharpoonup> SectorBreakdown) \<Rightarrow> uint list) \<Rightarrow> bool" where
  "valid_range_order rangeOrder \<longleftrightarrow>
     (\<forall>m. finite (dom m) \<longrightarrow> range_visits_each_key_once (rangeOrder m) m)"

text \<open>The new-shaped and the legacy-shaped entry for one offset agree: both absent, or both
  present with the same period, volume, events and average efficiency, the legacy change
  being the volume change.\<close>

fun entries_agree :: "'t PeriodMetrics option \<Rightarrow> 't YearComparison option \<Rightarrow> bool" where
  "entries_agree None None = True"
| "entries_agree (Some pm) (Some yc) =
     (pm_Period pm = yc_Period yc
      \<and> pm_TotalWaterVolume pm = yc_TotalWaterVolume yc
      \<and> pm_TotalEvents pm = yc_TotalEvents yc
      \<and> pm_AverageEfficiency pm = yc_AverageEfficiency yc
      \<and> VolumeChangePercent pm = ChangePercent yc)"
| "entries_agree _ _ = False"

text \<open>Two results of a request are the same but for the order of the sector breakdown.\<close>

fun same_but_breakdown_order ::
  "error + 't AnalyticsResponse \<Rightarrow> error + 't AnalyticsResponse \<Rightarrow> bool"
where
  "same_but_breakdown_order (Inl e1) (Inl e2) = (e1 = e2)"
| "same_but_breakdown_order (Inr r1) (Inr r2) =
     (r1\<lparr>r_SectorBreakdown := None\<rparr> = r2\<lparr>r_SectorBreakdown := None\<rparr>
      \<and> map_option mset (r_SectorBreakdown r1) = map_option mset (r_SectorBreakdown r2))"
| "same_but_breakdown_order _ _ = False"

section \<open>Example data\<close>

text \<open>An aggregated bucket of farm 1, with time stamps as day numbers.\<close>

definition mk_bucket ::
  "nat \<Rightarrow> uint \<Rightarrow> float64 \<Rightarrow> go_int \<Rightarrow> float64 \<Rightarrow> float64 \<Rightarrow> go_int \<Rightarrow> nat AggregatedDataWithCount"
where
  "mk_bucket day sector volume minutes nominal real_amount events =
     \<lparr>Data = \<lparr>StartTime = day, WaterVolume = volume, Duration = minutes, FarmID = 1,
               IrrigationSectorID = sector, NominalAmount = nominal, RealAmount = real_amount\<rparr>,
      EventCount = events\<rparr>"

text \<open>
  A data source for the examples. Its state counts the fetches made so far; the answer to a
  current-window fetch is \<open>current n\<close> and to a historical fetch \<open>years\<close> back
  \<open>historical years n\<close>, where \<open>n\<close> is that count.
\<close>

definition example_repo ::
  "(nat \<Rightarrow> error + nat AggregatedDataWithCount list) \<Rightarrow>
   (go_int \<Rightarrow> nat \<Rightarrow> error + nat AggregatedDataWithCount list) \<Rightarrow>
   (nat, nat) IrrigationRepository"
where
  "example_repo current historical =
     \<lparr>GetAggregatedData = (\<lambda>farmID sectorID startDate endDate aggregation n.
         (current n, n + 1)),
      GetYearOverYearData = (\<lambda>farmID sectorID startDate endDate aggregation yearsBack n.
         (historical yearsBack n, n + 1))\<rparr>"

definition example_service ::
  "(nat \<Rightarrow> error + nat AggregatedDataWithCount list) \<Rightarrow>
   (go_int \<Rightarrow> nat \<Rightarrow> error + nat AggregatedDataWithCount list) \<Rightarrow>
   (nat, nat) analyticsService"
where
  "example_service current historical = \<lparr>repo = example_repo current historical\<rparr>"

text \<open>A stand-in for \<^verbatim>\<open>AddDate\<close> on day numbers.\<close>

definition example_AddDate :: "nat \<Rightarrow> int \<Rightarrow> int \<Rightarrow> int \<Rightarrow> nat" where
  "example_AddDate t years months days = nat (int t + 365 * years + 30 * months + days)"

text \<open>Two range orders: by ascending and by descending key.\<close>

definition ascending_range :: "(uint \<rightharpoonup> SectorBreakdown) \<Rightarrow> uint list" where
  "ascending_range m = sorted_list_of_set (dom m)"

definition descending_range :: "(uint \<rightharpoonup> SectorBreakdown) \<Rightarrow> uint list" where
  "descending_range m = rev (sorted_list_of_set (dom m))"

text \<open>Rows and services for the examples: a source that always answers, one with no
  history, and one that answers the first fetch only.\<close>

definition example_rows :: "nat AggregatedDataWithCount list" where
  "example_rows =
     [mk_bucket 5 3 50 10 100 120 2, mk_bucket 5 4 30 10 0 0 4, mk_bucket 6 3 40 10 100 80 3]"

definition last_year_rows :: "nat AggregatedDataWithCount list" where
  "last_year_rows = [mk_bucket 5 3 40 10 100 100 2]"

definition steady_service :: "(nat, nat) analyticsService" where
  "steady_service =
     example_service (\<lambda>n. Inr example_rows)
       (\<lambda>years n. if years = 1 then Inr last_year_rows else Inr [])"

definition no_history_service :: "(nat, nat) analyticsService" where
  "no_history_service = example_service (\<lambda>n. Inr example_rows) (\<lambda>years n. Inr [])"

definition flaky_service :: "(nat, nat) analyticsService" where
  "flaky_service =
     example_service
       (\<lambda>n. if n = 0 then Inr example_rows else Inl (Error ''connection refused''))
       (\<lambda>years n. Inl (Error ''connection refused''))"

section \<open>Properties\<close>

subsection \<open>Rounding\<close>





text \<open>\<open>spec_round n x\<close> has at most \<open>n\<close> decimals and lies within half a unit of the last
  place of \<open>x\<close>.\<close>

lemma spec_round_grid: "\<exists>k::int. spec_round n x = of_int k / 10 ^ n"
proof (cases "x < 0")
  case True
  then have "spec_round n x = of_int (- \<lfloor>\<bar>x\<bar> * 10 ^ n + 1 / 2\<rfloor>) / 10 ^ n"
    by (simp add: spec_round_def)
  then show ?thesis by blast
next
  case False
  then have "spec_round n x = of_int (if x = 0 then 0 else \<lfloor>\<bar>x\<bar> * 10 ^ n + 1 / 2\<rfloor>) / 10 ^ n"
    by (simp add: spec_round_def sgn_if)
  then show ?thesis by blast
qed

lemma spec_round_nearest: "\<bar>spec_round n x - x\<bar> \<le> 1 / (2 * 10 ^ n)"
proof -
  define p :: real where "p = 10 ^ n"
  define y where "y = \<bar>x\<bar> * p"
  define k where "k = \<lfloor>y + 1 / 2\<rfloor>"
  have p: "0 < p" by (simp add: p_def)
  have k1: "of_int k \<le> y + 1 / 2" and k2: "y + 1 / 2 < of_int k + 1"
    unfolding k_def by linarith+
  then have near: "\<bar>of_int k - y\<bar> \<le> 1 / 2" by linarith
  have "spec_round n x - x = sgn x * ((of_int k - y) / p)"
  proof -
    have "sgn x * (y / p) = x"
      using p by (simp add: y_def sgn_if)
    then show ?thesis
      by (simp add: spec_round_def k_def y_def p_def diff_divide_distrib right_diff_distrib)
  qed
  then have "\<bar>spec_round n x - x\<bar> = \<bar>sgn x\<bar> * (\<bar>of_int k - y\<bar> / p)"
    using p by (simp add: abs_mult)
  also have "\<dots> \<le> 1 * (\<bar>of_int k - y\<bar> / p)"
    using p by (intro mult_right_mono) (simp_all add: sgn_if)
  also have "\<dots> \<le> 1 * ((1 / 2) / p)"
  proof -
    have "\<bar>of_int k - y\<bar> / p \<le> (1 / 2) / p"
      using near p by (rule_tac divide_right_mono) simp_all
    then show ?thesis by simp
  qed
  finally show ?thesis
    by (simp add: p_def)
qed

lemma math_Round_of_int [simp]: "math_Round (of_int k) = of_int k"
proof -
  have "\<lfloor>of_int k + (1 / 2 :: real)\<rfloor> = k" by linarith
  moreover have "\<lfloor>- of_int k + (1 / 2 :: real)\<rfloor> = - k" by linarith
  ultimately show ?thesis
    by (simp add: math_Round_def)
qed




lemma spec_round_0 [simp]: "spec_round n 0 = 0"
  by (simp add: spec_round_def)

subsection \<open>Percentage change\<close>


subsection \<open>Efficiency\<close>


subsection \<open>Signed reading of small counters\<close>


subsection \<open>The duration fallback\<close>

lemma processDataPoints_loop_efficiency:
  "map pt_Efficiency (processDataPoints_loop data points) =
     map pt_Efficiency points @ map (\<lambda>item. point_bucket_efficiency (Data item)) data"
  by (induction data arbitrary: points) (simp_all add: Let_def point_bucket_efficiency_def)

text \<open>In the data points the fallback is taken exactly when real and nominal amount are
  both 0 and volume and duration are positive.\<close>

lemma processDataPoints_efficiency:
  "map pt_Efficiency (processDataPoints data aggregation) =
     map (\<lambda>item. point_bucket_efficiency (Data item)) data"
  by (simp add: processDataPoints_def processDataPoints_loop_efficiency)

text \<open>Where real and nominal amount are both 0 the two loops agree on a bucket.\<close>

lemma summary_point_efficiency_agree:
  "RealAmount d = 0 \<Longrightarrow> NominalAmount d = 0 \<Longrightarrow>
   summary_bucket_efficiency d = point_bucket_efficiency d"
  by (simp add: summary_bucket_efficiency_def point_bucket_efficiency_def
      calculateEfficiency_def)

text \<open>
  Claim C3. The fallback to \<open>efficiency(water_volume, duration_minutes * 1.0)\<close> is to
  apply exactly when real and nominal amount are both 0 (with volume and duration present),
  for the data points and for the efficiencies behind the summary average alike. The
  summary loop tests \<^verbatim>\<open>efficiency == 0\<close> instead. For a bucket with nominal
  amount 100, real amount 0, volume 50 and duration 10 the data point has efficiency
  0 / 100 = 0 and no fallback, as the claim has it, while the summary takes the fallback
  and reports the average 50 / 10 = 5. The same happens for a bucket with real amount 30
  and no nominal amount.
\<close>

theorem summary_fallback_differs_from_data_points:
  "map pt_Efficiency
     (processDataPoints
        [\<lparr>Data = \<lparr>StartTime = (0::nat), WaterVolume = 50, Duration = 10, FarmID = 1,
                  IrrigationSectorID = 1, NominalAmount = 100, RealAmount = 0\<rparr>,
          EventCount = 1\<rparr>] ''daily'') = [0]
   \<and> AverageEfficiency
       (calculateSummary
          [\<lparr>Data = \<lparr>StartTime = (0::nat), WaterVolume = 50, Duration = 10, FarmID = 1,
                    IrrigationSectorID = 1, NominalAmount = 100, RealAmount = 0\<rparr>,
            EventCount = 1\<rparr>]) = 5
   \<and> map pt_Efficiency
       (processDataPoints
          [\<lparr>Data = \<lparr>StartTime = (0::nat), WaterVolume = 50, Duration = 10, FarmID = 1,
                    IrrigationSectorID = 1, NominalAmount = 0, RealAmount = 30\<rparr>,
            EventCount = 1\<rparr>] ''daily'') = [0]
   \<and> AverageEfficiency
       (calculateSummary
          [\<lparr>Data = \<lparr>StartTime = (0::nat), WaterVolume = 50, Duration = 10, FarmID = 1,
                    IrrigationSectorID = 1, NominalAmount = 0, RealAmount = 30\<rparr>,
            EventCount = 1\<rparr>]) = 5"
  by (simp add: processDataPoints_def calculateSummary_def calculateEfficiency_def
      math_Round_def word_sless_alt Let_def)

subsection \<open>Average efficiency of a summary\<close>






subsection \<open>The request, piece by piece\<close>

lemma calculatePeriodComparison_eq:
  "calculatePeriodComparison AddDate s f sec sd ed ag cur db =
     (let (r1, db1) = GetYearOverYearData (repo s) f sec sd ed ag 1 db;
          (r2, db2) = GetYearOverYearData (repo s) f sec sd ed ag 2 db1
      in (\<lparr>pc_OneYearAgo = historical_entry (periodMetricsFor AddDate 1 sd ed cur) r1,
           pc_TwoYearsAgo = historical_entry (periodMetricsFor AddDate 2 sd ed cur) r2\<rparr>, db2))"
  by (simp add: calculatePeriodComparison_def historical_entry_def periodMetricsFor_def Let_def
      split: prod.splits sum.splits)

lemma calculateYearOverYear_eq:
  "calculateYearOverYear AddDate s f sec sd ed ag cur db =
     (let (r1, db1) = GetYearOverYearData (repo s) f sec sd ed ag 1 db;
          (r2, db2) = GetYearOverYearData (repo s) f sec sd ed ag 2 db1
      in (\<lparr>yoy_OneYearAgo = historical_entry (yearComparisonFor AddDate 1 sd ed cur) r1,
           yoy_TwoYearsAgo = historical_entry (yearComparisonFor AddDate 2 sd ed cur) r2\<rparr>, db2))"
  by (simp add: calculateYearOverYear_def historical_entry_def yearComparisonFor_def Let_def
      split: prod.splits sum.splits)

lemma pc_OneYearAgo_eq:
  "pc_OneYearAgo (fst (calculatePeriodComparison AddDate s f sec sd ed ag cur db)) =
     historical_entry (periodMetricsFor AddDate 1 sd ed cur)
       (fst (GetYearOverYearData (repo s) f sec sd ed ag 1 db))"
  by (simp add: calculatePeriodComparison_eq split: prod.splits)

lemma pc_TwoYearsAgo_eq:
  "pc_TwoYearsAgo (fst (calculatePeriodComparison AddDate s f sec sd ed ag cur db)) =
     historical_entry (periodMetricsFor AddDate 2 sd ed cur)
       (fst (GetYearOverYearData (repo s) f sec sd ed ag 2
          (snd (GetYearOverYearData (repo s) f sec sd ed ag 1 db))))"
  by (simp add: calculatePeriodComparison_eq split: prod.splits)

lemma yoy_OneYearAgo_eq:
  "yoy_OneYearAgo (fst (calculateYearOverYear AddDate s f sec sd ed ag cur db)) =
     historical_entry (yearComparisonFor AddDate 1 sd ed cur)
       (fst (GetYearOverYearData (repo s) f sec sd ed ag 1 db))"
  by (simp add: calculateYearOverYear_eq split: prod.splits)

lemma yoy_TwoYearsAgo_eq:
  "yoy_TwoYearsAgo (fst (calculateYearOverYear AddDate s f sec sd ed ag cur db)) =
     historical_entry (yearComparisonFor AddDate 2 sd ed cur)
       (fst (GetYearOverYearData (repo s) f sec sd ed ag 2
          (snd (GetYearOverYearData (repo s) f sec sd ed ag 1 db))))"
  by (simp add: calculateYearOverYear_eq split: prod.splits)

lemma historical_entry_simps [simp]:
  "historical_entry build (Inl err) = None"
  "historical_entry build (Inr []) = None"
  "yearData \<noteq> [] \<Longrightarrow>
     historical_entry build (Inr yearData) = Some (build (calculateSummary yearData))"
  by (simp_all add: historical_entry_def)

lemma GetIrrigationAnalytics_normalized:
  "GetIrrigationAnalytics AddDate rangeOrder s farmID sectorID startDate endDate aggregation db =
     (let aggregation = normalizeAggregation aggregation;
          (res, db) = GetAggregatedData (repo s) farmID sectorID startDate endDate aggregation db
      in case res of
           Inl err \<Rightarrow> (Inl err, db)
         | Inr currentData \<Rightarrow>
             (let dataPoints = processDataPoints currentData aggregation;
                  summary = calculateSummary currentData;
                  (periodComparison, db) =
                    calculatePeriodComparison AddDate s farmID sectorID startDate endDate
                      aggregation summary db;
                  (sectorBreakdown, db) =
                    (case sectorID of
                       None \<Rightarrow>
                         (let (breakdowns, db) =
                                calculateSectorBreakdown rangeOrder s farmID startDate endDate
                                  aggregation db
                          in (Some breakdowns, db))
                     | Some _ \<Rightarrow> (None, db));
                  (yoy, db) =
                    calculateYearOverYear AddDate s farmID sectorID startDate endDate
                      aggregation summary db
              in (Inr \<lparr>r_FarmID = farmID,
                        r_SectorID = sectorID,
                        r_Period = \<lparr>StartDate = startDate, EndDate = endDate\<rparr>,
                        r_Aggregation = aggregation,
                        r_Data = dataPoints,
                        r_Summary = summary,
                        r_PeriodComparison = periodComparison,
                        r_SectorBreakdown = sectorBreakdown,
                        r_YearOverYear = yoy\<rparr>, db)))"
  by (simp only: GetIrrigationAnalytics_def normalizeAggregation_def Let_def)

lemma GetIrrigationAnalytics_failure:
  assumes "GetAggregatedData (repo s) f sec sd ed (normalizeAggregation ag) db = (Inl err, db0)"
  shows "GetIrrigationAnalytics AddDate ro s f sec sd ed ag db = (Inl err, db0)"
  using assms by (simp add: GetIrrigationAnalytics_normalized Let_def)

text \<open>A request whose current-window fetch succeeds returns a response, made of the
  results of the parts; the state of the data source is handed from each part to the
  next.\<close>

lemma GetIrrigationAnalytics_success:
  assumes "GetAggregatedData (repo s) f sec sd ed (normalizeAggregation ag) db = (Inr cur, db0)"
  shows "\<exists>resp db'.
     GetIrrigationAnalytics AddDate ro s f sec sd ed ag db = (Inr resp, db')
     \<and> r_FarmID resp = f \<and> r_SectorID resp = sec
     \<and> r_Period resp = \<lparr>StartDate = sd, EndDate = ed\<rparr>
     \<and> r_Aggregation resp = normalizeAggregation ag
     \<and> r_Data resp = processDataPoints cur (normalizeAggregation ag)
     \<and> r_Summary resp = calculateSummary cur
     \<and> r_PeriodComparison resp =
         fst (calculatePeriodComparison AddDate s f sec sd ed (normalizeAggregation ag)
                (calculateSummary cur) db0)
     \<and> r_SectorBreakdown resp =
         (case sec of
            None \<Rightarrow> Some (fst (calculateSectorBreakdown ro s f sd ed (normalizeAggregation ag)
              (snd (calculatePeriodComparison AddDate s f sec sd ed (normalizeAggregation ag)
                     (calculateSummary cur) db0))))
          | Some _ \<Rightarrow> None)
     \<and> r_YearOverYear resp =
         fst (calculateYearOverYear AddDate s f sec sd ed (normalizeAggregation ag)
                (calculateSummary cur)
                (case sec of
                   None \<Rightarrow> snd (calculateSectorBreakdown ro s f sd ed (normalizeAggregation ag)
                     (snd (calculatePeriodComparison AddDate s f sec sd ed
                            (normalizeAggregation ag) (calculateSummary cur) db0)))
                 | Some _ \<Rightarrow> snd (calculatePeriodComparison AddDate s f sec sd ed
                            (normalizeAggregation ag) (calculateSummary cur) db0)))"
  using assms
  by (simp add: GetIrrigationAnalytics_normalized Let_def case_prod_beta split: option.splits)

lemma snd_calculatePeriodComparison:
  "snd (calculatePeriodComparison AddDate s f sec sd ed ag cur db) =
     snd (GetYearOverYearData (repo s) f sec sd ed ag 2
       (snd (GetYearOverYearData (repo s) f sec sd ed ag 1 db)))"
  by (simp add: calculatePeriodComparison_eq split: prod.splits)

lemma snd_calculateSectorBreakdown:
  "snd (calculateSectorBreakdown ro s f sd ed ag db) =
     snd (GetAggregatedData (repo s) f None sd ed ag db)"
  by (simp add: calculateSectorBreakdown_def Let_def split: prod.splits sum.splits)

lemma calculateSectorBreakdown_failure:
  "fst (GetAggregatedData (repo s) f None sd ed ag db) = Inl err \<Longrightarrow>
   fst (calculateSectorBreakdown ro s f sd ed ag db) = []"
  by (auto simp add: calculateSectorBreakdown_def Let_def split: prod.splits sum.splits)

text \<open>The anatomy of a successful request: what each optional part of the response is, in
  terms of the answer to the fetch behind it.\<close>

lemma GetIrrigationAnalytics_anatomy:
  assumes cur: "GetAggregatedData (repo s) f sec sd ed (normalizeAggregation ag) db = (Inr cur, db0)"
  defines "st \<equiv> states_of_request s f sec sd ed (normalizeAggregation ag) db0"
  shows "\<exists>resp db'.
     GetIrrigationAnalytics AddDate ro s f sec sd ed ag db = (Inr resp, db')
     \<and> pc_OneYearAgo (r_PeriodComparison resp) =
         historical_entry (periodMetricsFor AddDate 1 sd ed (calculateSummary cur))
           (fst (GetYearOverYearData (repo s) f sec sd ed (normalizeAggregation ag) 1
                  (at_comparison_1 st)))
     \<and> pc_TwoYearsAgo (r_PeriodComparison resp) =
         historical_entry (periodMetricsFor AddDate 2 sd ed (calculateSummary cur))
           (fst (GetYearOverYearData (repo s) f sec sd ed (normalizeAggregation ag) 2
                  (at_comparison_2 st)))
     \<and> r_SectorBreakdown resp =
         (case sec of
            None \<Rightarrow> Some (fst (calculateSectorBreakdown ro s f sd ed (normalizeAggregation ag)
                              (at_breakdown st)))
          | Some _ \<Rightarrow> None)
     \<and> yoy_OneYearAgo (r_YearOverYear resp) =
         historical_entry (yearComparisonFor AddDate 1 sd ed (calculateSummary cur))
           (fst (GetYearOverYearData (repo s) f sec sd ed (normalizeAggregation ag) 1
                  (at_legacy_1 st)))
     \<and> yoy_TwoYearsAgo (r_YearOverYear resp) =
         historical_entry (yearComparisonFor AddDate 2 sd ed (calculateSummary cur))
           (fst (GetYearOverYearData (repo s) f sec sd ed (normalizeAggregation ag) 2
                  (at_legacy_2 st)))"
proof -
  from GetIrrigationAnalytics_success [OF cur, of AddDate ro]
  obtain resp db' where
    run: "GetIrrigationAnalytics AddDate ro s f sec sd ed ag db = (Inr resp, db')"
    and pc: "r_PeriodComparison resp =
         fst (calculatePeriodComparison AddDate s f sec sd ed (normalizeAggregation ag)
                (calculateSummary cur) db0)"
    and sb: "r_SectorBreakdown resp =
         (case sec of
            None \<Rightarrow> Some (fst (calculateSectorBreakdown ro s f sd ed (normalizeAggregation ag)
              (snd (calculatePeriodComparison AddDate s f sec sd ed (normalizeAggregation ag)
                     (calculateSummary cur) db0))))
          | Some _ \<Rightarrow> None)"
    and yoy: "r_YearOverYear resp =
         fst (calculateYearOverYear AddDate s f sec sd ed (normalizeAggregation ag)
                (calculateSummary cur)
                (case sec of
                   None \<Rightarrow> snd (calculateSectorBreakdown ro s f sd ed (normalizeAggregation ag)
                     (snd (calculatePeriodComparison AddDate s f sec sd ed
                            (normalizeAggregation ag) (calculateSummary cur) db0)))
                 | Some _ \<Rightarrow> snd (calculatePeriodComparison AddDate s f sec sd ed
                            (normalizeAggregation ag) (calculateSummary cur) db0)))"
    by blast
  have s1: "at_comparison_1 st = db0"
    and s2: "at_comparison_2 st =
      snd (GetYearOverYearData (repo s) f sec sd ed (normalizeAggregation ag) 1 db0)"
    and s3: "at_breakdown st =
      snd (calculatePeriodComparison AddDate s f sec sd ed (normalizeAggregation ag)
             (calculateSummary cur) db0)"
    by (simp_all add: st_def states_of_request_def Let_def snd_calculatePeriodComparison)
  have s4: "at_legacy_1 st =
      (case sec of
         None \<Rightarrow> snd (calculateSectorBreakdown ro s f sd ed (normalizeAggregation ag)
                        (at_breakdown st))
       | Some _ \<Rightarrow> at_breakdown st)"
    by (simp add: st_def states_of_request_def Let_def snd_calculateSectorBreakdown
        split: option.splits)
  have s5: "at_legacy_2 st =
      snd (GetYearOverYearData (repo s) f sec sd ed (normalizeAggregation ag) 1 (at_legacy_1 st))"
    by (simp add: st_def states_of_request_def Let_def)
  have yoy': "r_YearOverYear resp =
      fst (calculateYearOverYear AddDate s f sec sd ed (normalizeAggregation ag)
             (calculateSummary cur) (at_legacy_1 st))"
    unfolding yoy s4 s3 by (simp split: option.splits)
  have "pc_OneYearAgo (r_PeriodComparison resp) =
         historical_entry (periodMetricsFor AddDate 1 sd ed (calculateSummary cur))
           (fst (GetYearOverYearData (repo s) f sec sd ed (normalizeAggregation ag) 1
                  (at_comparison_1 st)))"
    unfolding pc s1 by (rule pc_OneYearAgo_eq)
  moreover have "pc_TwoYearsAgo (r_PeriodComparison resp) =
         historical_entry (periodMetricsFor AddDate 2 sd ed (calculateSummary cur))
           (fst (GetYearOverYearData (repo s) f sec sd ed (normalizeAggregation ag) 2
                  (at_comparison_2 st)))"
    unfolding pc s2 by (rule pc_TwoYearsAgo_eq)
  moreover have "r_SectorBreakdown resp =
         (case sec of
            None \<Rightarrow> Some (fst (calculateSectorBreakdown ro s f sd ed (normalizeAggregation ag)
                              (at_breakdown st)))
          | Some _ \<Rightarrow> None)"
    unfolding sb s3 ..
  moreover have "yoy_OneYearAgo (r_YearOverYear resp) =
         historical_entry (yearComparisonFor AddDate 1 sd ed (calculateSummary cur))
           (fst (GetYearOverYearData (repo s) f sec sd ed (normalizeAggregation ag) 1
                  (at_legacy_1 st)))"
    unfolding yoy' by (rule yoy_OneYearAgo_eq)
  moreover have "yoy_TwoYearsAgo (r_YearOverYear resp) =
         historical_entry (yearComparisonFor AddDate 2 sd ed (calculateSummary cur))
           (fst (GetYearOverYearData (repo s) f sec sd ed (normalizeAggregation ag) 2
                  (at_legacy_2 st)))"
    unfolding yoy' s5 by (rule yoy_TwoYearsAgo_eq)
  ultimately show ?thesis
    using run by blast
qed

text \<open>A request that returns a response had a successful current-window fetch.\<close>

lemma GetIrrigationAnalytics_Inr_current:
  assumes "GetIrrigationAnalytics AddDate ro s f sec sd ed ag db = (Inr resp, db')"
  shows "\<exists>cur db0.
     GetAggregatedData (repo s) f sec sd ed (normalizeAggregation ag) db = (Inr cur, db0)"
proof (cases "GetAggregatedData (repo s) f sec sd ed (normalizeAggregation ag) db")
  case (Pair res db0)
  show ?thesis
  proof (cases res)
    case (Inl err)
    with Pair assms GetIrrigationAnalytics_failure [of s f sec sd ed ag db err db0 AddDate ro]
    show ?thesis by simp
  next
    case (Inr cur)
    with Pair show ?thesis by blast
  qed
qed

subsection \<open>The response echoes the request\<close>

text \<open>
  Claim C10. On every successful call the response carries the request's scope unchanged:
  the farm, the optional sector (absent exactly when the argument was) and the start and end
  of the period, whatever the data source answered.
\<close>

theorem response_echoes_request_scope:
  assumes "GetIrrigationAnalytics AddDate rangeOrder s farmID sectorID startDate endDate
             aggregation db = (Inr resp, db')"
  shows "r_FarmID resp = farmID
       \<and> r_SectorID resp = sectorID
       \<and> (r_SectorID resp = None \<longleftrightarrow> sectorID = None)
       \<and> StartDate (r_Period resp) = startDate
       \<and> EndDate (r_Period resp) = endDate"
proof -
  from GetIrrigationAnalytics_Inr_current [OF assms]
  obtain cur db0 where
    "GetAggregatedData (repo s) farmID sectorID startDate endDate
       (normalizeAggregation aggregation) db = (Inr cur, db0)"
    by blast
  from GetIrrigationAnalytics_success [OF this, of AddDate rangeOrder]
  obtain resp2 db2 where
    "GetIrrigationAnalytics AddDate rangeOrder s farmID sectorID startDate endDate
       aggregation db = (Inr resp2, db2)"
    and "r_FarmID resp2 = farmID" and "r_SectorID resp2 = sectorID"
    and "r_Period resp2 = \<lparr>StartDate = startDate, EndDate = endDate\<rparr>"
    by blast
  with assms show ?thesis by simp
qed

theorem response_echoes_request_scope_witness:
  "\<exists>resp db'.
     GetIrrigationAnalytics example_AddDate ascending_range steady_service 7 (Some 3) 5 36
       ''weekly'' 0 = (Inr resp, db')
     \<and> r_FarmID resp = 7 \<and> r_SectorID resp = Some 3
     \<and> StartDate (r_Period resp) = 5 \<and> EndDate (r_Period resp) = 36"
proof -
  have "GetAggregatedData (repo steady_service) 7 (Some 3) 5 36 (normalizeAggregation ''weekly'') 0
      = (Inr example_rows, 1)"
    by (simp add: steady_service_def example_service_def example_repo_def)
  from GetIrrigationAnalytics_success [OF this, of example_AddDate ascending_range]
  obtain resp db' where
    run: "GetIrrigationAnalytics example_AddDate ascending_range steady_service 7 (Some 3) 5 36
       ''weekly'' 0 = (Inr resp, db')"
    by blast
  from response_echoes_request_scope [OF run] run show ?thesis by blast
qed

subsection \<open>Missing history\<close>

lemma calculatePeriodComparison_no_history:
  "fst (GetYearOverYearData (repo s) f sec sd ed ag 1 db) = Inr [] \<Longrightarrow>
   pc_OneYearAgo (fst (calculatePeriodComparison AddDate s f sec sd ed ag cur db)) = None"
  by (simp add: pc_OneYearAgo_eq)

lemma calculateYearOverYear_no_history:
  "fst (GetYearOverYearData (repo s) f sec sd ed ag 1 db) = Inr [] \<Longrightarrow>
   yoy_OneYearAgo (fst (calculateYearOverYear AddDate s f sec sd ed ag cur db)) = None"
  by (simp add: yoy_OneYearAgo_eq)

text \<open>
  Claim C5. In a request, whenever the fetch of the window shifted by one year (by two
  years) returns zero buckets, the entry for that offset is absent, in the period
  comparison and in the legacy view alike; each of the four entries follows the fetch made
  for it.
\<close>

theorem no_history_omits_entry:
  assumes "GetAggregatedData (repo s) f sec sd ed (normalizeAggregation ag) db = (Inr cur, db0)"
  shows "\<exists>resp db'.
     GetIrrigationAnalytics AddDate ro s f sec sd ed ag db = (Inr resp, db')
     \<and> (fst (GetYearOverYearData (repo s) f sec sd ed (normalizeAggregation ag) 1
              (at_comparison_1 (states_of_request s f sec sd ed (normalizeAggregation ag) db0)))
           = Inr []
         \<longrightarrow> pc_OneYearAgo (r_PeriodComparison resp) = None)
     \<and> (fst (GetYearOverYearData (repo s) f sec sd ed (normalizeAggregation ag) 2
              (at_comparison_2 (states_of_request s f sec sd ed (normalizeAggregation ag) db0)))
           = Inr []
         \<longrightarrow> pc_TwoYearsAgo (r_PeriodComparison resp) = None)
     \<and> (fst (GetYearOverYearData (repo s) f sec sd ed (normalizeAggregation ag) 1
              (at_legacy_1 (states_of_request s f sec sd ed (normalizeAggregation ag) db0)))
           = Inr []
         \<longrightarrow> yoy_OneYearAgo (r_YearOverYear resp) = None)
     \<and> (fst (GetYearOverYearData (repo s) f sec sd ed (normalizeAggregation ag) 2
              (at_legacy_2 (states_of_request s f sec sd ed (normalizeAggregation ag) db0)))
           = Inr []
         \<longrightarrow> yoy_TwoYearsAgo (r_YearOverYear resp) = None)"
proof -
  from GetIrrigationAnalytics_anatomy [OF assms, of AddDate ro]
  obtain resp db' where
    "GetIrrigationAnalytics AddDate ro s f sec sd ed ag db = (Inr resp, db')"
    and "pc_OneYearAgo (r_PeriodComparison resp) =
         historical_entry (periodMetricsFor AddDate 1 sd ed (calculateSummary cur))
           (fst (GetYearOverYearData (repo s) f sec sd ed (normalizeAggregation ag) 1
              (at_comparison_1 (states_of_request s f sec sd ed (normalizeAggregation ag) db0))))"
    and "pc_TwoYearsAgo (r_PeriodComparison resp) =
         historical_entry (periodMetricsFor AddDate 2 sd ed (calculateSummary cur))
           (fst (GetYearOverYearData (repo s) f sec sd ed (normalizeAggregation ag) 2
              (at_comparison_2 (states_of_request s f sec sd ed (normalizeAggregation ag) db0))))"
    and "yoy_OneYearAgo (r_YearOverYear resp) =
         historical_entry (yearComparisonFor AddDate 1 sd ed (calculateSummary cur))
           (fst (GetYearOverYearData (repo s) f sec sd ed (normalizeAggregation ag) 1
              (at_legacy_1 (states_of_request s f sec sd ed (normalizeAggregation ag) db0))))"
    and "yoy_TwoYearsAgo (r_YearOverYear resp) =
         historical_entry (yearComparisonFor AddDate 2 sd ed (calculateSummary cur))
           (fst (GetYearOverYearData (repo s) f sec sd ed (normalizeAggregation ag) 2
              (at_legacy_2 (states_of_request s f sec sd ed (normalizeAggregation ag) db0))))"
    by blast
  then show ?thesis
    by (intro exI [of _ resp] exI [of _ db'] conjI impI) simp_all
qed

lemma states_of_example_request:
  "states_of_request (example_service current historical) f None sd ed ag n =
     \<lparr>at_comparison_1 = n, at_comparison_2 = n + 1, at_breakdown = n + 2,
      at_legacy_1 = n + 3, at_legacy_2 = n + 4\<rparr>"
  "states_of_request (example_service current historical) f (Some k) sd ed ag n =
     \<lparr>at_comparison_1 = n, at_comparison_2 = n + 1, at_breakdown = n + 2,
      at_legacy_1 = n + 2, at_legacy_2 = n + 3\<rparr>"
  by (simp_all add: states_of_request_def example_service_def example_repo_def Let_def)

theorem no_history_omits_entry_witness:
  "GetAggregatedData (repo no_history_service) 7 None 5 36 (normalizeAggregation ''daily'') 0
     = (Inr example_rows, 1)
   \<and> fst (GetYearOverYearData (repo no_history_service) 7 None 5 36
            (normalizeAggregation ''daily'') 1 1) = Inr []
   \<and> fst (GetYearOverYearData (repo no_history_service) 7 None 5 36
            (normalizeAggregation ''daily'') 2 2) = Inr []
   \<and> fst (GetYearOverYearData (repo no_history_service) 7 None 5 36
            (normalizeAggregation ''daily'') 1 4) = Inr []
   \<and> fst (GetYearOverYearData (repo no_history_service) 7 None 5 36
            (normalizeAggregation ''daily'') 2 5) = Inr []
   \<and> (\<exists>resp db'.
        GetIrrigationAnalytics example_AddDate ascending_range no_history_service 7 None 5 36
          ''daily'' 0 = (Inr resp, db')
        \<and> pc_OneYearAgo (r_PeriodComparison resp) = None
        \<and> pc_TwoYearsAgo (r_PeriodComparison resp) = None
        \<and> yoy_OneYearAgo (r_YearOverYear resp) = None
        \<and> yoy_TwoYearsAgo (r_YearOverYear resp) = None)"
proof -
  have cur: "GetAggregatedData (repo no_history_service) 7 None 5 36
      (normalizeAggregation ''daily'') 0 = (Inr example_rows, 1)"
    by (simp add: no_history_service_def example_service_def example_repo_def)
  have hist: "fst (GetYearOverYearData (repo no_history_service) 7 None 5 36
      (normalizeAggregation ''daily'') years n) = Inr []" for years n
    by (simp add: no_history_service_def example_service_def example_repo_def)
  have st: "states_of_request no_history_service 7 None 5 36 (normalizeAggregation ''daily'') 1
      = \<lparr>at_comparison_1 = 1, at_comparison_2 = 2, at_breakdown = 3,
         at_legacy_1 = 4, at_legacy_2 = 5\<rparr>"
    by (simp add: no_history_service_def states_of_example_request)
  from no_history_omits_entry [OF cur, of example_AddDate ascending_range]
  show ?thesis
    unfolding st using cur hist by (simp add: hist)
qed

subsection \<open>Failing fetches\<close>

lemma historical_entry_failure: "isl res \<Longrightarrow> historical_entry build res = None"
  by (cases res) simp_all

text \<open>
  Claim C6. If the current-window fetch fails, the request returns that error and no
  response. If it succeeds, the request returns a response whatever the later fetches do:
  a historical fetch that fails leaves its entry absent, and a failing unscoped fetch for
  the sector breakdown leaves the breakdown empty.
\<close>

theorem fetch_failures:
  "(GetAggregatedData (repo s) f sec sd ed (normalizeAggregation ag) db = (Inl err, db0)
      \<longrightarrow> GetIrrigationAnalytics AddDate ro s f sec sd ed ag db = (Inl err, db0))
   \<and> (GetAggregatedData (repo s) f sec sd ed (normalizeAggregation ag) db = (Inr cur, db0)
      \<longrightarrow> (\<exists>resp db'.
            GetIrrigationAnalytics AddDate ro s f sec sd ed ag db = (Inr resp, db')
          \<and> (isl (fst (GetYearOverYearData (repo s) f sec sd ed (normalizeAggregation ag) 1
                 (at_comparison_1
                    (states_of_request s f sec sd ed (normalizeAggregation ag) db0))))
              \<longrightarrow> pc_OneYearAgo (r_PeriodComparison resp) = None)
          \<and> (isl (fst (GetYearOverYearData (repo s) f sec sd ed (normalizeAggregation ag) 2
                 (at_comparison_2
                    (states_of_request s f sec sd ed (normalizeAggregation ag) db0))))
              \<longrightarrow> pc_TwoYearsAgo (r_PeriodComparison resp) = None)
          \<and> (isl (fst (GetYearOverYearData (repo s) f sec sd ed (normalizeAggregation ag) 1
                 (at_legacy_1
                    (states_of_request s f sec sd ed (normalizeAggregation ag) db0))))
              \<longrightarrow> yoy_OneYearAgo (r_YearOverYear resp) = None)
          \<and> (isl (fst (GetYearOverYearData (repo s) f sec sd ed (normalizeAggregation ag) 2
                 (at_legacy_2
                    (states_of_request s f sec sd ed (normalizeAggregation ag) db0))))
              \<longrightarrow> yoy_TwoYearsAgo (r_YearOverYear resp) = None)
          \<and> (sec = None
              \<and> isl (fst (GetAggregatedData (repo s) f None sd ed (normalizeAggregation ag)
                   (at_breakdown
                      (states_of_request s f sec sd ed (normalizeAggregation ag) db0))))
              \<longrightarrow> r_SectorBreakdown resp = Some [])))"
proof (intro conjI impI)
  assume "GetAggregatedData (repo s) f sec sd ed (normalizeAggregation ag) db = (Inl err, db0)"
  then show "GetIrrigationAnalytics AddDate ro s f sec sd ed ag db = (Inl err, db0)"
    by (rule GetIrrigationAnalytics_failure)
next
  let ?st = "states_of_request s f sec sd ed (normalizeAggregation ag) db0"
  assume cur: "GetAggregatedData (repo s) f sec sd ed (normalizeAggregation ag) db = (Inr cur, db0)"
  from GetIrrigationAnalytics_anatomy [OF cur, of AddDate ro]
  obtain resp db' where
    run: "GetIrrigationAnalytics AddDate ro s f sec sd ed ag db = (Inr resp, db')"
    and pc1: "pc_OneYearAgo (r_PeriodComparison resp) =
         historical_entry (periodMetricsFor AddDate 1 sd ed (calculateSummary cur))
           (fst (GetYearOverYearData (repo s) f sec sd ed (normalizeAggregation ag) 1
                  (at_comparison_1 ?st)))"
    and pc2: "pc_TwoYearsAgo (r_PeriodComparison resp) =
         historical_entry (periodMetricsFor AddDate 2 sd ed (calculateSummary cur))
           (fst (GetYearOverYearData (repo s) f sec sd ed (normalizeAggregation ag) 2
                  (at_comparison_2 ?st)))"
    and sb: "r_SectorBreakdown resp =
         (case sec of
            None \<Rightarrow> Some (fst (calculateSectorBreakdown ro s f sd ed (normalizeAggregation ag)
                              (at_breakdown ?st)))
          | Some _ \<Rightarrow> None)"
    and y1: "yoy_OneYearAgo (r_YearOverYear resp) =
         historical_entry (yearComparisonFor AddDate 1 sd ed (calculateSummary cur))
           (fst (GetYearOverYearData (repo s) f sec sd ed (normalizeAggregation ag) 1
                  (at_legacy_1 ?st)))"
    and y2: "yoy_TwoYearsAgo (r_YearOverYear resp) =
         historical_entry (yearComparisonFor AddDate 2 sd ed (calculateSummary cur))
           (fst (GetYearOverYearData (repo s) f sec sd ed (normalizeAggregation ag) 2
                  (at_legacy_2 ?st)))"
    by blast
  have p1: "isl (fst (GetYearOverYearData (repo s) f sec sd ed (normalizeAggregation ag) 1
                 (at_comparison_1 ?st)))
              \<longrightarrow> pc_OneYearAgo (r_PeriodComparison resp) = None"
    unfolding pc1 by (simp add: historical_entry_failure)
  have p2: "isl (fst (GetYearOverYearData (repo s) f sec sd ed (normalizeAggregation ag) 2
                 (at_comparison_2 ?st)))
              \<longrightarrow> pc_TwoYearsAgo (r_PeriodComparison resp) = None"
    unfolding pc2 by (simp add: historical_entry_failure)
  have p3: "isl (fst (GetYearOverYearData (repo s) f sec sd ed (normalizeAggregation ag) 1
                 (at_legacy_1 ?st)))
              \<longrightarrow> yoy_OneYearAgo (r_YearOverYear resp) = None"
    unfolding y1 by (simp add: historical_entry_failure)
  have p4: "isl (fst (GetYearOverYearData (repo s) f sec sd ed (normalizeAggregation ag) 2
                 (at_legacy_2 ?st)))
              \<longrightarrow> yoy_TwoYearsAgo (r_YearOverYear resp) = None"
    unfolding y2 by (simp add: historical_entry_failure)
  have p5: "sec = None
      \<and> isl (fst (GetAggregatedData (repo s) f None sd ed (normalizeAggregation ag)
                   (at_breakdown ?st)))
      \<longrightarrow> r_SectorBreakdown resp = Some []"
  proof
    assume h: "sec = None
      \<and> isl (fst (GetAggregatedData (repo s) f None sd ed (normalizeAggregation ag)
                   (at_breakdown ?st)))"
    then obtain e where
      "fst (GetAggregatedData (repo s) f None sd ed (normalizeAggregation ag) (at_breakdown ?st))
         = Inl e"
      by (auto simp: isl_def)
    from calculateSectorBreakdown_failure [OF this, of ro] h sb
    show "r_SectorBreakdown resp = Some []" by simp
  qed
  from run p1 p2 p3 p4 p5
  show "\<exists>resp db'.
            GetIrrigationAnalytics AddDate ro s f sec sd ed ag db = (Inr resp, db')
          \<and> (isl (fst (GetYearOverYearData (repo s) f sec sd ed (normalizeAggregation ag) 1
                 (at_comparison_1 ?st)))
              \<longrightarrow> pc_OneYearAgo (r_PeriodComparison resp) = None)
          \<and> (isl (fst (GetYearOverYearData (repo s) f sec sd ed (normalizeAggregation ag) 2
                 (at_comparison_2 ?st)))
              \<longrightarrow> pc_TwoYearsAgo (r_PeriodComparison resp) = None)
          \<and> (isl (fst (GetYearOverYearData (repo s) f sec sd ed (normalizeAggregation ag) 1
                 (at_legacy_1 ?st)))
              \<longrightarrow> yoy_OneYearAgo (r_YearOverYear resp) = None)
          \<and> (isl (fst (GetYearOverYearData (repo s) f sec sd ed (normalizeAggregation ag) 2
                 (at_legacy_2 ?st)))
              \<longrightarrow> yoy_TwoYearsAgo (r_YearOverYear resp) = None)
          \<and> (sec = None
              \<and> isl (fst (GetAggregatedData (repo s) f None sd ed (normalizeAggregation ag)
                   (at_breakdown ?st)))
              \<longrightarrow> r_SectorBreakdown resp = Some [])"
    by blast
qed

theorem fetch_failures_witness:
  "GetAggregatedData (repo flaky_service) 7 None 5 36 (normalizeAggregation ''daily'') 1
     = (Inl (Error ''connection refused''), 2)
   \<and> GetIrrigationAnalytics example_AddDate ascending_range flaky_service 7 None 5 36
       ''daily'' 1 = (Inl (Error ''connection refused''), 2)
   \<and> GetAggregatedData (repo flaky_service) 7 None 5 36 (normalizeAggregation ''daily'') 0
     = (Inr example_rows, 1)
   \<and> isl (fst (GetYearOverYearData (repo flaky_service) 7 None 5 36
                 (normalizeAggregation ''daily'') 1 1))
   \<and> isl (fst (GetYearOverYearData (repo flaky_service) 7 None 5 36
                 (normalizeAggregation ''daily'') 2 2))
   \<and> isl (fst (GetAggregatedData (repo flaky_service) 7 None 5 36
                 (normalizeAggregation ''daily'') 3))
   \<and> isl (fst (GetYearOverYearData (repo flaky_service) 7 None 5 36
                 (normalizeAggregation ''daily'') 1 4))
   \<and> isl (fst (GetYearOverYearData (repo flaky_service) 7 None 5 36
                 (normalizeAggregation ''daily'') 2 5))
   \<and> (\<exists>resp db'.
        GetIrrigationAnalytics example_AddDate ascending_range flaky_service 7 None 5 36
          ''daily'' 0 = (Inr resp, db')
        \<and> pc_OneYearAgo (r_PeriodComparison resp) = None
        \<and> pc_TwoYearsAgo (r_PeriodComparison resp) = None
        \<and> yoy_OneYearAgo (r_YearOverYear resp) = None
        \<and> yoy_TwoYearsAgo (r_YearOverYear resp) = None
        \<and> r_SectorBreakdown resp = Some [])"
proof -
  have down: "GetAggregatedData (repo flaky_service) 7 None 5 36
      (normalizeAggregation ''daily'') 1 = (Inl (Error ''connection refused''), 2)"
    by (simp add: flaky_service_def example_service_def example_repo_def)
  have cur: "GetAggregatedData (repo flaky_service) 7 None 5 36
      (normalizeAggregation ''daily'') 0 = (Inr example_rows, 1)"
    by (simp add: flaky_service_def example_service_def example_repo_def)
  have hist: "isl (fst (GetYearOverYearData (repo flaky_service) 7 None 5 36
      (normalizeAggregation ''daily'') years n))" for years n
    by (simp add: flaky_service_def example_service_def example_repo_def)
  have late: "isl (fst (GetAggregatedData (repo flaky_service) 7 None 5 36
      (normalizeAggregation ''daily'') 3))"
    by (simp add: flaky_service_def example_service_def example_repo_def)
  have st: "states_of_request flaky_service 7 None 5 36 (normalizeAggregation ''daily'') 1
      = \<lparr>at_comparison_1 = 1, at_comparison_2 = 2, at_breakdown = 3,
         at_legacy_1 = 4, at_legacy_2 = 5\<rparr>"
    by (simp add: flaky_service_def states_of_example_request)
  have "GetIrrigationAnalytics example_AddDate ascending_range flaky_service 7 None 5 36
       ''daily'' 1 = (Inl (Error ''connection refused''), 2)"
    using fetch_failures [where s = flaky_service and f = 7 and sec = None and sd = 5
        and ed = 36 and ag = "''daily''" and db = 1 and err = "Error ''connection refused''"
        and ?db0.0 = 2 and AddDate = example_AddDate and ro = ascending_range] down
    by blast
  moreover have "\<exists>resp db'.
        GetIrrigationAnalytics example_AddDate ascending_range flaky_service 7 None 5 36
          ''daily'' 0 = (Inr resp, db')
        \<and> pc_OneYearAgo (r_PeriodComparison resp) = None
        \<and> pc_TwoYearsAgo (r_PeriodComparison resp) = None
        \<and> yoy_OneYearAgo (r_YearOverYear resp) = None
        \<and> yoy_TwoYearsAgo (r_YearOverYear resp) = None
        \<and> r_SectorBreakdown resp = Some []"
    using fetch_failures [where s = flaky_service and f = 7 and sec = None and sd = 5
        and ed = 36 and ag = "''daily''" and db = 0 and ?db0.0 = 1 and cur = example_rows
        and AddDate = example_AddDate and ro = ascending_range] cur hist late
    unfolding st by simp
  ultimately show ?thesis
    using down cur hist late by blast
qed

subsection \<open>The two views of a comparison\<close>

lemma entries_agree_historical:
  "entries_agree (historical_entry (periodMetricsFor AddDate years sd ed cur) res)
     (historical_entry (yearComparisonFor AddDate years sd ed cur) res)"
  by (cases res)
     (simp_all add: historical_entry_def periodMetricsFor_def yearComparisonFor_def)

text \<open>
  Claim C7. Against an unchanged data source, for each of the two offsets the legacy
  year-over-year entry is present exactly when the period-comparison entry is, and then the
  two carry the same shifted period, total volume, total events and average efficiency, the
  legacy change percent being the volume change percent.
\<close>

theorem legacy_view_agrees:
  assumes "unchanged_source (repo s)"
    and "GetIrrigationAnalytics AddDate ro s f sec sd ed ag db = (Inr resp, db')"
  shows "entries_agree (pc_OneYearAgo (r_PeriodComparison resp))
           (yoy_OneYearAgo (r_YearOverYear resp))
       \<and> entries_agree (pc_TwoYearsAgo (r_PeriodComparison resp))
           (yoy_TwoYearsAgo (r_YearOverYear resp))"
proof -
  let ?ag = "normalizeAggregation ag"
  from GetIrrigationAnalytics_Inr_current [OF assms(2)]
  obtain cur db0 where
    cur: "GetAggregatedData (repo s) f sec sd ed ?ag db = (Inr cur, db0)"
    by blast
  let ?st = "states_of_request s f sec sd ed ?ag db0"
  have same: "fst (GetYearOverYearData (repo s) f sec sd ed ?ag n d)
      = fst (GetYearOverYearData (repo s) f sec sd ed ?ag n d')" for n d d'
    using assms(1) by (simp add: unchanged_source_def)
  from GetIrrigationAnalytics_anatomy [OF cur, of AddDate ro]
  obtain resp2 db2 where
    run: "GetIrrigationAnalytics AddDate ro s f sec sd ed ag db = (Inr resp2, db2)"
    and pc1: "pc_OneYearAgo (r_PeriodComparison resp2) =
         historical_entry (periodMetricsFor AddDate 1 sd ed (calculateSummary cur))
           (fst (GetYearOverYearData (repo s) f sec sd ed ?ag 1 (at_comparison_1 ?st)))"
    and pc2: "pc_TwoYearsAgo (r_PeriodComparison resp2) =
         historical_entry (periodMetricsFor AddDate 2 sd ed (calculateSummary cur))
           (fst (GetYearOverYearData (repo s) f sec sd ed ?ag 2 (at_comparison_2 ?st)))"
    and y1: "yoy_OneYearAgo (r_YearOverYear resp2) =
         historical_entry (yearComparisonFor AddDate 1 sd ed (calculateSummary cur))
           (fst (GetYearOverYearData (repo s) f sec sd ed ?ag 1 (at_legacy_1 ?st)))"
    and y2: "yoy_TwoYearsAgo (r_YearOverYear resp2) =
         historical_entry (yearComparisonFor AddDate 2 sd ed (calculateSummary cur))
           (fst (GetYearOverYearData (repo s) f sec sd ed ?ag 2 (at_legacy_2 ?st)))"
    by blast
  have eq: "resp2 = resp"
    using assms(2) run by simp
  have "entries_agree (pc_OneYearAgo (r_PeriodComparison resp2))
           (yoy_OneYearAgo (r_YearOverYear resp2))"
    unfolding pc1 y1 same [of 1 "at_legacy_1 ?st" "at_comparison_1 ?st"]
    by (rule entries_agree_historical)
  moreover have "entries_agree (pc_TwoYearsAgo (r_PeriodComparison resp2))
           (yoy_TwoYearsAgo (r_YearOverYear resp2))"
    unfolding pc2 y2 same [of 2 "at_legacy_2 ?st" "at_comparison_2 ?st"]
    by (rule entries_agree_historical)
  ultimately show ?thesis
    unfolding eq by blast
qed

lemma unchanged_example_source:
  "unchanged_source (example_repo (\<lambda>n. current) (\<lambda>years n. historical years))"
  by (simp add: unchanged_source_def example_repo_def)

theorem legacy_view_agrees_witness:
  "unchanged_source (repo steady_service)
   \<and> (\<exists>resp db'.
        GetIrrigationAnalytics example_AddDate ascending_range steady_service 7 None 5 36
          ''daily'' 0 = (Inr resp, db')
        \<and> pc_OneYearAgo (r_PeriodComparison resp) \<noteq> None
        \<and> pc_TwoYearsAgo (r_PeriodComparison resp) = None
        \<and> entries_agree (pc_OneYearAgo (r_PeriodComparison resp))
             (yoy_OneYearAgo (r_YearOverYear resp))
        \<and> entries_agree (pc_TwoYearsAgo (r_PeriodComparison resp))
             (yoy_TwoYearsAgo (r_YearOverYear resp)))"
proof -
  have unch: "unchanged_source (repo steady_service)"
    by (simp add: steady_service_def example_service_def unchanged_example_source)
  have cur: "GetAggregatedData (repo steady_service) 7 None 5 36
      (normalizeAggregation ''daily'') 0 = (Inr example_rows, 1)"
    by (simp add: steady_service_def example_service_def example_repo_def)
  have h1: "fst (GetYearOverYearData (repo steady_service) 7 None 5 36
      (normalizeAggregation ''daily'') 1 n) = Inr last_year_rows" for n
    by (simp add: steady_service_def example_service_def example_repo_def)
  have h2: "fst (GetYearOverYearData (repo steady_service) 7 None 5 36
      (normalizeAggregation ''daily'') 2 n) = Inr []" for n
    by (simp add: steady_service_def example_service_def example_repo_def)
  from GetIrrigationAnalytics_anatomy [OF cur, of example_AddDate ascending_range]
  obtain resp db' where
    run: "GetIrrigationAnalytics example_AddDate ascending_range steady_service 7 None 5 36
          ''daily'' 0 = (Inr resp, db')"
    and pc1: "pc_OneYearAgo (r_PeriodComparison resp) \<noteq> None"
    and pc2: "pc_TwoYearsAgo (r_PeriodComparison resp) = None"
    by (auto simp: h1 h2 last_year_rows_def)
  from legacy_view_agrees [OF unch run] run pc1 pc2 unch
  show ?thesis by blast
qed

subsection \<open>The sector breakdown\<close>

lemma breakdowns_loop_eq:
  "breakdowns_loop ks m acc = acc @ map roundBreakdown (List.map_filter m ks)"
  by (induction ks arbitrary: acc)
     (simp_all add: roundBreakdown_def Let_def map_filter_simps split: option.splits)

lemma calculateSectorBreakdown_success:
  assumes "fst (GetAggregatedData (repo s) f None sd ed ag db) = Inr data"
  shows "fst (calculateSectorBreakdown ro s f sd ed ag db) =
           map roundBreakdown
             (List.map_filter (sectorMap_loop data Map.empty)
                (ro (sectorMap_loop data Map.empty)))"
  using assms
  by (auto simp add: calculateSectorBreakdown_def Let_def breakdowns_loop_eq
      split: prod.splits sum.splits)


lemma sector_total_Nil [simp]: "sector_total field [] k = 0"
  by (simp add: sector_total_def sector_buckets_def)



lemma dom_sectorMap_loop:
  "dom (sectorMap_loop data m) = dom m \<union> (\<lambda>item. IrrigationSectorID (Data item)) ` set data"
proof (induction data arbitrary: m)
  case Nil
  then show ?case by simp
next
  case (Cons item rest)
  show ?case
    by (cases "m (IrrigationSectorID (Data item))") (auto simp: Cons.IH Let_def)
qed

lemma finite_dom_sectorMap_loop: "finite (dom (sectorMap_loop data Map.empty))"
  by (simp add: dom_sectorMap_loop)

lemma roundBreakdown_SectorID [simp]: "sb_SectorID (roundBreakdown b) = sb_SectorID b"
  by (simp add: roundBreakdown_def Let_def)



lemma example_sectorMap:
  "sectorMap_loop example_rows Map.empty =
     [3 \<mapsto> \<lparr>sb_SectorID = 3, sb_TotalWaterVolume = 90, sb_TotalEvents = 5,
             sb_AverageEfficiency = 12 / 10, sb_TotalRealAmount = 200,
             sb_TotalNominalAmount = 200\<rparr>,
      4 \<mapsto> \<lparr>sb_SectorID = 4, sb_TotalWaterVolume = 30, sb_TotalEvents = 4,
             sb_AverageEfficiency = 3, sb_TotalRealAmount = 0,
             sb_TotalNominalAmount = 0\<rparr>]"
  by (simp add: example_rows_def mk_bucket_def Let_def calculateEfficiency_def math_Round_def
      word_sless_alt fun_upd_twist)

lemma example_breakdown_ascending:
  "fst (calculateSectorBreakdown ascending_range steady_service 7 5 36 ''daily'' n) =
     [\<lparr>sb_SectorID = 3, sb_TotalWaterVolume = 90, sb_TotalEvents = 5,
       sb_AverageEfficiency = 1, sb_TotalRealAmount = 200, sb_TotalNominalAmount = 200\<rparr>,
      \<lparr>sb_SectorID = 4, sb_TotalWaterVolume = 30, sb_TotalEvents = 4,
       sb_AverageEfficiency = 3, sb_TotalRealAmount = 0, sb_TotalNominalAmount = 0\<rparr>]"
proof -
  have "fst (GetAggregatedData (repo steady_service) 7 None 5 36 ''daily'' n) = Inr example_rows"
    by (simp add: steady_service_def example_service_def example_repo_def)
  from calculateSectorBreakdown_success [OF this, of ascending_range]
  show ?thesis
    by (simp add: example_sectorMap ascending_range_def roundBreakdown_def
        Let_def calculateEfficiency_def math_Round_def)
qed

lemma example_breakdown_descending:
  "fst (calculateSectorBreakdown descending_range steady_service 7 5 36 ''daily'' n) =
     [\<lparr>sb_SectorID = 4, sb_TotalWaterVolume = 30, sb_TotalEvents = 4,
       sb_AverageEfficiency = 3, sb_TotalRealAmount = 0, sb_TotalNominalAmount = 0\<rparr>,
      \<lparr>sb_SectorID = 3, sb_TotalWaterVolume = 90, sb_TotalEvents = 5,
       sb_AverageEfficiency = 1, sb_TotalRealAmount = 200, sb_TotalNominalAmount = 200\<rparr>]"
proof -
  have "fst (GetAggregatedData (repo steady_service) 7 None 5 36 ''daily'' n) = Inr example_rows"
    by (simp add: steady_service_def example_service_def example_repo_def)
  from calculateSectorBreakdown_success [OF this, of descending_range]
  show ?thesis
    by (simp add: example_sectorMap descending_range_def roundBreakdown_def
        Let_def calculateEfficiency_def math_Round_def)
qed




subsection \<open>Two calls with the same arguments\<close>

lemma valid_ascending_range: "valid_range_order ascending_range"
  by (simp add: valid_range_order_def range_visits_each_key_once_def ascending_range_def)

lemma valid_descending_range: "valid_range_order descending_range"
  by (simp add: valid_range_order_def range_visits_each_key_once_def descending_range_def)

lemma unchanged_steady_service: "unchanged_source (repo steady_service)"
  by (simp add: steady_service_def example_service_def unchanged_example_source)

lemma steady_current:
  "GetAggregatedData (repo steady_service) 7 None 5 36 (normalizeAggregation ''daily'') n
     = (Inr example_rows, n + 1)"
  by (simp add: steady_service_def example_service_def example_repo_def)

text \<open>
  Claim C9, as stated: two calls with the same arguments over an unchanged data set return
  byte-identical responses, the order of the sector breakdown included. The breakdown is
  built by ranging over a Go map, whose order is the runtime's to choose: a first call in
  which the range goes by ascending sector and a second, on the state the first one left,
  in which it goes by descending sector return different responses.
\<close>

theorem byte_identical_counterexample:
  "unchanged_source (repo steady_service)
   \<and> valid_range_order ascending_range
   \<and> valid_range_order descending_range
   \<and> fst (GetIrrigationAnalytics example_AddDate ascending_range steady_service 7 None 5 36
            ''daily'' 0)
     \<noteq> fst (GetIrrigationAnalytics example_AddDate descending_range steady_service 7 None 5 36
            ''daily''
            (snd (GetIrrigationAnalytics example_AddDate ascending_range steady_service 7 None
                    5 36 ''daily'' 0)))"
proof -
  let ?d = "snd (GetIrrigationAnalytics example_AddDate ascending_range steady_service 7 None
                    5 36 ''daily'' 0)"
  have daily: "normalizeAggregation ''daily'' = ''daily''"
    by (simp add: normalizeAggregation_def)
  from GetIrrigationAnalytics_success [OF steady_current [of 0], of example_AddDate
      ascending_range]
  obtain r1 d1 where
    run1: "GetIrrigationAnalytics example_AddDate ascending_range steady_service 7 None 5 36
            ''daily'' 0 = (Inr r1, d1)"
    and sb1: "map_option (map sb_SectorID) (r_SectorBreakdown r1) = Some [3, 4]"
    by (auto simp: daily example_breakdown_ascending)
  from GetIrrigationAnalytics_success [OF steady_current [of ?d], of example_AddDate
      descending_range]
  obtain r2 d2 where
    run2: "GetIrrigationAnalytics example_AddDate descending_range steady_service 7 None 5 36
            ''daily'' ?d = (Inr r2, d2)"
    and sb2: "map_option (map sb_SectorID) (r_SectorBreakdown r2) = Some [4, 3]"
    by (auto simp: daily example_breakdown_descending)
  from sb1 sb2 have "r1 \<noteq> r2" by auto
  with run1 run2 show ?thesis
    using unchanged_steady_service valid_ascending_range valid_descending_range by simp
qed

lemma fst_calculatePeriodComparison_unchanged:
  assumes "unchanged_source (repo s)"
  shows "fst (calculatePeriodComparison AddDate s f sec sd ed ag cur d)
       = fst (calculatePeriodComparison AddDate s f sec sd ed ag cur d')"
proof -
  have same: "fst (GetYearOverYearData (repo s) f sec sd ed ag n x)
      = fst (GetYearOverYearData (repo s) f sec sd ed ag n y)" for n x y
    using assms by (simp add: unchanged_source_def)
  have "pc_OneYearAgo (fst (calculatePeriodComparison AddDate s f sec sd ed ag cur d))
      = pc_OneYearAgo (fst (calculatePeriodComparison AddDate s f sec sd ed ag cur d'))"
    unfolding pc_OneYearAgo_eq same [of 1 d d'] ..
  moreover
  have "pc_TwoYearsAgo (fst (calculatePeriodComparison AddDate s f sec sd ed ag cur d))
      = pc_TwoYearsAgo (fst (calculatePeriodComparison AddDate s f sec sd ed ag cur d'))"
    unfolding pc_TwoYearsAgo_eq
      same [of 2 "snd (GetYearOverYearData (repo s) f sec sd ed ag 1 d)"
                 "snd (GetYearOverYearData (repo s) f sec sd ed ag 1 d')"] ..
  ultimately show ?thesis
    by (simp add: PeriodComparison.equality)
qed

lemma fst_calculateYearOverYear_unchanged:
  assumes "unchanged_source (repo s)"
  shows "fst (calculateYearOverYear AddDate s f sec sd ed ag cur d)
       = fst (calculateYearOverYear AddDate s f sec sd ed ag cur d')"
proof -
  have same: "fst (GetYearOverYearData (repo s) f sec sd ed ag n x)
      = fst (GetYearOverYearData (repo s) f sec sd ed ag n y)" for n x y
    using assms by (simp add: unchanged_source_def)
  have "yoy_OneYearAgo (fst (calculateYearOverYear AddDate s f sec sd ed ag cur d))
      = yoy_OneYearAgo (fst (calculateYearOverYear AddDate s f sec sd ed ag cur d'))"
    unfolding yoy_OneYearAgo_eq same [of 1 d d'] ..
  moreover
  have "yoy_TwoYearsAgo (fst (calculateYearOverYear AddDate s f sec sd ed ag cur d))
      = yoy_TwoYearsAgo (fst (calculateYearOverYear AddDate s f sec sd ed ag cur d'))"
    unfolding yoy_TwoYearsAgo_eq
      same [of 2 "snd (GetYearOverYearData (repo s) f sec sd ed ag 1 d)"
                 "snd (GetYearOverYearData (repo s) f sec sd ed ag 1 d')"] ..
  ultimately show ?thesis
    by (simp add: YearOverYearComparison.equality)
qed

text \<open>Two ranges over the same map visit the same keys, so the two breakdowns hold the
  same entries.\<close>

lemma mset_calculateSectorBreakdown:
  assumes "unchanged_source (repo s)"
    and "valid_range_order ro1" and "valid_range_order ro2"
  shows "mset (fst (calculateSectorBreakdown ro1 s f sd ed ag d))
       = mset (fst (calculateSectorBreakdown ro2 s f sd ed ag d'))"
proof -
  have same: "fst (GetAggregatedData (repo s) f None sd ed ag d)
      = fst (GetAggregatedData (repo s) f None sd ed ag d')"
    using assms(1) by (simp add: unchanged_source_def)
  show ?thesis
  proof (cases "fst (GetAggregatedData (repo s) f None sd ed ag d)")
    case (Inl err)
    with same have "fst (GetAggregatedData (repo s) f None sd ed ag d') = Inl err"
      by simp
    from calculateSectorBreakdown_failure [OF Inl, of ro1]
      calculateSectorBreakdown_failure [OF this, of ro2]
    show ?thesis by simp
  next
    case (Inr data)
    let ?m = "sectorMap_loop data Map.empty"
    have fin: "finite (dom ?m)" by (rule finite_dom_sectorMap_loop)
    with assms(2,3) have "distinct (ro1 ?m)" "distinct (ro2 ?m)" "set (ro1 ?m) = set (ro2 ?m)"
      by (simp_all add: valid_range_order_def range_visits_each_key_once_def)
    then have "mset (ro1 ?m) = mset (ro2 ?m)"
      by (simp add: set_eq_iff_mset_eq_distinct)
    then have "mset (List.map_filter ?m (ro1 ?m)) = mset (List.map_filter ?m (ro2 ?m))"
      by (simp add: map_filter_def)
    moreover from Inr same
    have "fst (GetAggregatedData (repo s) f None sd ed ag d') = Inr data"
      by simp
    ultimately show ?thesis
      using Inr by (simp add: calculateSectorBreakdown_success)
  qed
qed

text \<open>
  Claim C9, amended. Two calls with the same arguments over an unchanged data set return
  the same result but for the order of the sector breakdown: both fail with the same error,
  or both succeed with responses equal in every other field and with sector breakdowns
  that hold the same entries, each the same number of times, in the order in which the
  runtime happened to range over the sectors.
\<close>

theorem responses_agree_but_for_breakdown_order:
  assumes "unchanged_source (repo s)"
    and "valid_range_order ro1" and "valid_range_order ro2"
  shows "same_but_breakdown_order
           (fst (GetIrrigationAnalytics AddDate ro1 s f sec sd ed ag d1))
           (fst (GetIrrigationAnalytics AddDate ro2 s f sec sd ed ag d2))"
proof -
  let ?ag = "normalizeAggregation ag"
  have same: "fst (GetAggregatedData (repo s) f sec sd ed ?ag d1)
      = fst (GetAggregatedData (repo s) f sec sd ed ?ag d2)"
    using assms(1) by (simp add: unchanged_source_def)
  obtain res x1 where c1: "GetAggregatedData (repo s) f sec sd ed ?ag d1 = (res, x1)"
    by (cases "GetAggregatedData (repo s) f sec sd ed ?ag d1")
  obtain x2 where c2: "GetAggregatedData (repo s) f sec sd ed ?ag d2 = (res, x2)"
    using same c1 by (cases "GetAggregatedData (repo s) f sec sd ed ?ag d2") simp
  show ?thesis
  proof (cases res)
    case (Inl err)
    from c1 c2 Inl
    have "GetIrrigationAnalytics AddDate ro1 s f sec sd ed ag d1 = (Inl err, x1)"
      "GetIrrigationAnalytics AddDate ro2 s f sec sd ed ag d2 = (Inl err, x2)"
      by (simp_all add: GetIrrigationAnalytics_failure)
    then show ?thesis by simp
  next
    case (Inr cur)
    let ?sum = "calculateSummary cur"
    let ?p1 = "calculatePeriodComparison AddDate s f sec sd ed ?ag ?sum x1"
    let ?p2 = "calculatePeriodComparison AddDate s f sec sd ed ?ag ?sum x2"
    from c1 Inr have "GetAggregatedData (repo s) f sec sd ed ?ag d1 = (Inr cur, x1)"
      by simp
    from GetIrrigationAnalytics_success [OF this, of AddDate ro1]
    obtain r1 e1 where
      run1: "GetIrrigationAnalytics AddDate ro1 s f sec sd ed ag d1 = (Inr r1, e1)"
      and f1: "r_FarmID r1 = f" "r_SectorID r1 = sec"
        "r_Period r1 = \<lparr>StartDate = sd, EndDate = ed\<rparr>" "r_Aggregation r1 = ?ag"
        "r_Data r1 = processDataPoints cur ?ag" "r_Summary r1 = ?sum"
      and pc1: "r_PeriodComparison r1 = fst ?p1"
      and sb1: "r_SectorBreakdown r1 =
         (case sec of
            None \<Rightarrow> Some (fst (calculateSectorBreakdown ro1 s f sd ed ?ag (snd ?p1)))
          | Some _ \<Rightarrow> None)"
      and y1: "r_YearOverYear r1 =
         fst (calculateYearOverYear AddDate s f sec sd ed ?ag ?sum
                (case sec of
                   None \<Rightarrow> snd (calculateSectorBreakdown ro1 s f sd ed ?ag (snd ?p1))
                 | Some _ \<Rightarrow> snd ?p1))"
      by blast
    from c2 Inr have "GetAggregatedData (repo s) f sec sd ed ?ag d2 = (Inr cur, x2)"
      by simp
    from GetIrrigationAnalytics_success [OF this, of AddDate ro2]
    obtain r2 e2 where
      run2: "GetIrrigationAnalytics AddDate ro2 s f sec sd ed ag d2 = (Inr r2, e2)"
      and f2: "r_FarmID r2 = f" "r_SectorID r2 = sec"
        "r_Period r2 = \<lparr>StartDate = sd, EndDate = ed\<rparr>" "r_Aggregation r2 = ?ag"
        "r_Data r2 = processDataPoints cur ?ag" "r_Summary r2 = ?sum"
      and pc2: "r_PeriodComparison r2 = fst ?p2"
      and sb2: "r_SectorBreakdown r2 =
         (case sec of
            None \<Rightarrow> Some (fst (calculateSectorBreakdown ro2 s f sd ed ?ag (snd ?p2)))
          | Some _ \<Rightarrow> None)"
      and y2: "r_YearOverYear r2 =
         fst (calculateYearOverYear AddDate s f sec sd ed ?ag ?sum
                (case sec of
                   None \<Rightarrow> snd (calculateSectorBreakdown ro2 s f sd ed ?ag (snd ?p2))
                 | Some _ \<Rightarrow> snd ?p2))"
      by blast
    have pc: "r_PeriodComparison r1 = r_PeriodComparison r2"
      unfolding pc1 pc2 using assms(1) by (rule fst_calculatePeriodComparison_unchanged)
    have yoy: "r_YearOverYear r1 = r_YearOverYear r2"
      unfolding y1 y2 using assms(1) by (rule fst_calculateYearOverYear_unchanged)
    have sb: "map_option mset (r_SectorBreakdown r1) = map_option mset (r_SectorBreakdown r2)"
    proof (cases sec)
      case None
      with sb1 sb2 mset_calculateSectorBreakdown [OF assms, of f sd ed ?ag "snd ?p1" "snd ?p2"]
      show ?thesis by simp
    next
      case (Some k)
      with sb1 sb2 show ?thesis by simp
    qed
    have "r1\<lparr>r_SectorBreakdown := None\<rparr> = r2\<lparr>r_SectorBreakdown := None\<rparr>"
      using f1 f2 pc yoy by (simp add: AnalyticsResponse.equality)
    with sb run1 run2 show ?thesis by simp
  qed
qed

theorem responses_agree_but_for_breakdown_order_witness:
  "unchanged_source (repo steady_service)
   \<and> valid_range_order ascending_range
   \<and> valid_range_order descending_range
   \<and> same_but_breakdown_order
       (fst (GetIrrigationAnalytics example_AddDate ascending_range steady_service 7 None 5 36
               ''daily'' 0))
       (fst (GetIrrigationAnalytics example_AddDate descending_range steady_service 7 None 5
               36 ''daily'' 6))"
  using responses_agree_but_for_breakdown_order
    [OF unchanged_steady_service valid_ascending_range valid_descending_range,
     of example_AddDate 7 None 5 36 "''daily''" 0 6]
    unchanged_steady_service valid_ascending_range valid_descending_range
  by blast

end
